theory Spec2Isabelle
  imports Main
begin

section \<open>The batch image fetcher \<^verbatim>\<open>download_images.py\<close>\<close>

text \<open>
  The script walks a static catalog of car brands and models; for each model it asks an
  image-search API for a thumbnail URL (\<^verbatim>\<open>fetch_image_url\<close>) and, when the answer is
  truthy, streams the image to the model's configured path (\<^verbatim>\<open>download_image\<close>).

  The embedding is a state-and-exception monad written out by hand: a statement is a
  function from the world to a result (\<open>Inl\<close> an exception in flight, \<open>Inr\<close> a value)
  and the new world. The network, the filesystem and the interpreter's \<^verbatim>\<open>repr\<close> are
  parameters (\<open>env\<close>): every theorem holds for whatever they answer.
\<close>

subsection \<open>Python values\<close>

text \<open>
  What \<^verbatim>\<open>response.json()\<close> can return. A float is kept as mantissa and binary
  exponent (or infinity, or NaN): only its truth value is ever used. A dict is an
  association list whose first binding of a key is the key's value. A string is a list of
  \<open>char\<close>, one per code point; \<open>char\<close> has 256 values, so the strings of the model are
  those with code points below U+0100, which the catalog stays within.
\<close>

datatype pyfloat = Finite int int | Infinity bool | NaN

datatype json =
    JNull
  | JBool bool
  | JInt int
  | JFloat pyfloat
  | JStr string
  | JArr "json list"
  | JObj "(string \<times> json) list"

text \<open>Instances of \<^verbatim>\<open>Exception\<close>, each with its \<^verbatim>\<open>str(e)\<close>. \<open>OtherException\<close> carries
  the class name and the message of whatever the libraries raise (requests, json, os).\<close>

datatype exn =
    AttributeError string
  | IndexError string
  | KeyError string
  | TypeError string
  | OtherException string string

fun exn_str :: "exn \<Rightarrow> string" where
  "exn_str (AttributeError m) = m"
| "exn_str (IndexError m) = m"
| "exn_str (KeyError m) = m"
| "exn_str (TypeError m) = m"
| "exn_str (OtherException c m) = m"

text \<open>Truth value testing, as \<^verbatim>\<open>if x:\<close> does it.\<close>

fun truthy :: "json \<Rightarrow> bool" where
  "truthy JNull = False"
| "truthy (JBool b) = b"
| "truthy (JInt n) = (n \<noteq> 0)"
| "truthy (JFloat (Finite m e)) = (m \<noteq> 0)"
| "truthy (JFloat (Infinity s)) = True"
| "truthy (JFloat NaN) = True"
| "truthy (JStr s) = (s \<noteq> [])"
| "truthy (JArr xs) = (xs \<noteq> [])"
| "truthy (JObj kvs) = (kvs \<noteq> [])"

fun type_name :: "json \<Rightarrow> string" where
  "type_name JNull = ''NoneType''"
| "type_name (JBool b) = ''bool''"
| "type_name (JInt n) = ''int''"
| "type_name (JFloat f) = ''float''"
| "type_name (JStr s) = ''str''"
| "type_name (JArr xs) = ''list''"
| "type_name (JObj kvs) = ''dict''"

text \<open>\<^verbatim>\<open>x.get(key, default)\<close>: only a dict has the method.\<close>

fun py_get :: "json \<Rightarrow> string \<Rightarrow> json \<Rightarrow> exn + json" where
  "py_get (JObj kvs) key dflt = Inr (case map_of kvs key of Some v \<Rightarrow> v | None \<Rightarrow> dflt)"
| "py_get x key dflt =
     Inl (AttributeError ([CHR 0x27] @ type_name x @ [CHR 0x27] @ '' object has no attribute ''
            @ [CHR 0x27] @ ''get'' @ [CHR 0x27]))"

text \<open>\<^verbatim>\<open>x[0]\<close>. The keys of a decoded JSON object are strings, so the integer 0 is never
  one of them.\<close>

fun py_index0 :: "json \<Rightarrow> exn + json" where
  "py_index0 (JArr []) = Inl (IndexError ''list index out of range'')"
| "py_index0 (JArr (x # xs)) = Inr x"
| "py_index0 (JStr []) = Inl (IndexError ''string index out of range'')"
| "py_index0 (JStr (c # cs)) = Inr (JStr [c])"
| "py_index0 (JObj kvs) = Inl (KeyError ''0'')"
| "py_index0 x =
     Inl (TypeError ([CHR 0x27] @ type_name x @ [CHR 0x27] @ '' object is not subscriptable''))"

text \<open>\<^verbatim>\<open>str(n)\<close> for an integer: decimal, with a minus sign.\<close>

fun str_nat :: "nat \<Rightarrow> string" where
  "str_nat n = (if n < 10 then [''0123456789'' ! n]
                else str_nat (n div 10) @ [''0123456789'' ! (n mod 10)])"

declare str_nat.simps [simp del]

definition str_int :: "int \<Rightarrow> string" where
  "str_int i = (if i < 0 then ''-'' @ str_nat (nat (- i)) else str_nat (nat i))"

subsection \<open>The world and its environment\<close>

text \<open>
  A response as the script uses it: the status code, what \<^verbatim>\<open>response.json()\<close> returns
  or raises, the pieces of the body that \<^verbatim>\<open>response.iter_content(n)\<close> yields
  (\<open>delivered\<close>: they come as the transport delivers them and need not be \<open>n\<close> bytes
  long), and the exception that ends the body stream after them, if any (\<open>raw_error\<close>;
  \<open>None\<close> is a clean end of the body).
\<close>

record response =
  status_code :: int
  json_result :: "exn + json"
  delivered :: "nat \<Rightarrow> string list"
  raw_error :: "exn option"

text \<open>
  The world: file contents by path, the directories created, the lines printed, the
  GET requests issued (URL argument and the \<^verbatim>\<open>stream\<close> flag) and the calls of
  \<^verbatim>\<open>file.write\<close> (path and chunk), each log in order.
\<close>

record world =
  files :: "string \<rightharpoonup> string"
  dirs :: "string set"
  out :: "string list"
  reqs :: "(json \<times> bool) list"
  writes :: "(string \<times> string) list"

text \<open>
  What the script cannot decide: the answer to a GET; whether \<^verbatim>\<open>open\<close>,
  \<^verbatim>\<open>file.write\<close>, the close at the end of a \<^verbatim>\<open>with\<close> block, \<^verbatim>\<open>os.makedirs\<close> and
  \<^verbatim>\<open>print\<close> raise; and \<^verbatim>\<open>repr\<close> of a value that is not a string. Each may depend on
  the whole world so far. A write or a close that raises also tells what the file is left
  with, since buffered bytes may or may not have reached it.
\<close>

record env =
  get_result :: "world \<Rightarrow> json \<Rightarrow> bool \<Rightarrow> exn + response"
  open_error :: "world \<Rightarrow> string \<Rightarrow> exn option"
  write_error :: "world \<Rightarrow> string \<Rightarrow> string \<Rightarrow> (exn \<times> string) option"
  close_error :: "world \<Rightarrow> string \<Rightarrow> (exn \<times> string) option"
  makedirs_error :: "world \<Rightarrow> string \<Rightarrow> exn option"
  print_error :: "world \<Rightarrow> string \<Rightarrow> exn option"
  repr :: "json \<Rightarrow> string"

type_synonym 'a io = "world \<Rightarrow> (exn + 'a) \<times> world"

definition io_return :: "'a \<Rightarrow> 'a io" where
  "io_return x w = (Inr x, w)"

definition io_raise :: "exn \<Rightarrow> 'a io" where
  "io_raise e w = (Inl e, w)"

definition io_lift :: "exn + 'a \<Rightarrow> 'a io" where
  "io_lift r w = (r, w)"

definition io_bind :: "'a io \<Rightarrow> ('a \<Rightarrow> 'b io) \<Rightarrow> 'b io" where
  "io_bind m f w = (case m w of (Inl e, w') \<Rightarrow> (Inl e, w') | (Inr x, w') \<Rightarrow> f x w')"

text \<open>\<^verbatim>\<open>try: m except Exception as e: h e\<close>. An exception raised by the handler itself is
  not caught.\<close>

definition try_except :: "'a io \<Rightarrow> (exn \<Rightarrow> 'a io) \<Rightarrow> 'a io" where
  "try_except m h w = (case m w of (Inl e, w') \<Rightarrow> h e w' | (Inr x, w') \<Rightarrow> (Inr x, w'))"

text \<open>\<^verbatim>\<open>for x in xs: f x\<close>: an exception leaves the loop.\<close>

fun for_each :: "('a \<Rightarrow> unit io) \<Rightarrow> 'a list \<Rightarrow> unit io" where
  "for_each f [] = io_return ()"
| "for_each f (x # xs) = io_bind (f x) (\<lambda>_. for_each f xs)"

text \<open>\<^verbatim>\<open>print\<close> appends a line, or raises when standard output does not take it (an
  encoding that lacks a character of the line, a closed pipe).\<close>

definition print :: "env \<Rightarrow> string \<Rightarrow> unit io" where
  "print env s w =
     (case print_error env w s of
        Some e \<Rightarrow> (Inl e, w)
      | None \<Rightarrow> (Inr (), w\<lparr>out := out w @ [s]\<rparr>))"

text \<open>\<^verbatim>\<open>{v}\<close> in an f-string: a string is itself, any other decoded value prints as its \<^verbatim>\<open>repr\<close>.\<close>

definition py_str :: "env \<Rightarrow> json \<Rightarrow> string" where
  "py_str env v = (case v of JStr s \<Rightarrow> s | _ \<Rightarrow> repr env v)"

definition requests_get :: "env \<Rightarrow> json \<Rightarrow> bool \<Rightarrow> response io" where
  "requests_get env url stream w =
     (get_result env w url stream, w\<lparr>reqs := reqs w @ [(url, stream)]\<rparr>)"

text \<open>\<^verbatim>\<open>open(path, "wb")\<close> creates the file or truncates it.\<close>

definition open_wb :: "env \<Rightarrow> string \<Rightarrow> unit io" where
  "open_wb env path w =
     (case open_error env w path of
        Some e \<Rightarrow> (Inl e, w)
      | None \<Rightarrow> (Inr (), w\<lparr>files := (files w)(path \<mapsto> [])\<rparr>))"

text \<open>\<^verbatim>\<open>file.write(chunk)\<close> appends to the file, or raises and leaves the file with what the
  environment says.\<close>

definition file_write :: "env \<Rightarrow> string \<Rightarrow> string \<Rightarrow> unit io" where
  "file_write env path chunk w =
     (let w1 = w\<lparr>writes := writes w @ [(path, chunk)]\<rparr> in
      case write_error env w path chunk of
        Some (e, left) \<Rightarrow> (Inl e, w1\<lparr>files := (files w)(path \<mapsto> left)\<rparr>)
      | None \<Rightarrow>
          (Inr (), w1\<lparr>files := (files w)(path \<mapsto>
             (case files w path of None \<Rightarrow> chunk | Some old \<Rightarrow> old @ chunk))\<rparr>))"

text \<open>The close of the file at the end of the \<^verbatim>\<open>with\<close> block: it flushes, and may raise.\<close>

definition file_close :: "env \<Rightarrow> string \<Rightarrow> unit io" where
  "file_close env path w =
     (case close_error env w path of
        Some (e, left) \<Rightarrow> (Inl e, w\<lparr>files := (files w)(path \<mapsto> left)\<rparr>)
      | None \<Rightarrow> (Inr (), w))"

text \<open>
  \<^verbatim>\<open>with open(path, "wb") as file: body\<close>. The file is closed when the body ends, normally
  or by an exception; an exception of the close takes the place of the body's.
\<close>

definition with_open_wb :: "env \<Rightarrow> string \<Rightarrow> unit io \<Rightarrow> unit io" where
  "with_open_wb env path body w =
     (case open_wb env path w of
        (Inl e, w1) \<Rightarrow> (Inl e, w1)
      | (Inr u, w1) \<Rightarrow>
          (case body w1 of
             (r, w2) \<Rightarrow>
               (case file_close env path w2 of
                  (Inl e, w3) \<Rightarrow> (Inl e, w3)
                | (Inr u', w3) \<Rightarrow> (r, w3))))"

text \<open>\<^verbatim>\<open>response.iter_content(n)\<close>: the pieces of the body as they are delivered.\<close>

definition iter_content :: "nat \<Rightarrow> response \<Rightarrow> string list" where
  "iter_content n response = delivered response n"

subsection \<open>The catalog\<close>

text \<open>The entry of a model (key \<^verbatim>\<open>"image"\<close> is the field \<open>image_path\<close>) and of a brand.\<close>

record car_model =
  name :: string
  releaseYear :: int
  image_path :: string

record car_brand =
  brand :: string
  models :: "car_model list"

definition car_database :: "car_brand list" where
  "car_database = [
    \<lparr>brand = ''Toyota'',
     models = [
        \<lparr>name = ''Corolla'', releaseYear = 1966, image_path = ''src/assets/car_images/toyota_corolla.jpg''\<rparr>,
        \<lparr>name = ''Camry'', releaseYear = 1982, image_path = ''src/assets/car_images/toyota_camry.jpg''\<rparr>,
        \<lparr>name = ''Prius'', releaseYear = 1997, image_path = ''src/assets/car_images/toyota_prius.jpg''\<rparr>,
        \<lparr>name = ''RAV4'', releaseYear = 1994, image_path = ''src/assets/car_images/toyota_rav4.jpg''\<rparr>,
        \<lparr>name = ''Highlander'', releaseYear = 2000, image_path = ''src/assets/car_images/toyota_highlander.jpg''\<rparr>,
        \<lparr>name = ''Land Cruiser'', releaseYear = 1951, image_path = ''src/assets/car_images/toyota_land_cruiser.jpg''\<rparr>,
        \<lparr>name = ''Supra'', releaseYear = 1978, image_path = ''src/assets/car_images/toyota_supra.jpg''\<rparr>,
        \<lparr>name = ''Yaris'', releaseYear = 1999, image_path = ''src/assets/car_images/toyota_yaris.jpg''\<rparr>]\<rparr>,
    \<lparr>brand = ''Ford'',
     models = [
        \<lparr>name = ''F-150'', releaseYear = 1948, image_path = ''src/assets/car_images/ford_f150.jpg''\<rparr>,
        \<lparr>name = ''Mustang'', releaseYear = 1964, image_path = ''src/assets/car_images/ford_mustang.jpg''\<rparr>,
        \<lparr>name = ''Explorer'', releaseYear = 1990, image_path = ''src/assets/car_images/ford_explorer.jpg''\<rparr>,
        \<lparr>name = ''Focus'', releaseYear = 1998, image_path = ''src/assets/car_images/ford_focus.jpg''\<rparr>,
        \<lparr>name = ''Escape'', releaseYear = 2000, image_path = ''src/assets/car_images/ford_escape.jpg''\<rparr>,
        \<lparr>name = ''Bronco'', releaseYear = 1966, image_path = ''src/assets/car_images/ford_bronco.jpg''\<rparr>,
        \<lparr>name = ''Ranger'', releaseYear = 1983, image_path = ''src/assets/car_images/ford_ranger.jpg''\<rparr>,
        \<lparr>name = ''Fiesta'', releaseYear = 1976, image_path = ''src/assets/car_images/ford_fiesta.jpg''\<rparr>]\<rparr>,
    \<lparr>brand = ''Honda'',
     models = [
        \<lparr>name = ''Civic'', releaseYear = 1972, image_path = ''src/assets/car_images/honda_civic.jpg''\<rparr>,
        \<lparr>name = ''Accord'', releaseYear = 1976, image_path = ''src/assets/car_images/honda_accord.jpg''\<rparr>,
        \<lparr>name = ''CR-V'', releaseYear = 1995, image_path = ''src/assets/car_images/honda_crv.jpg''\<rparr>,
        \<lparr>name = ''Pilot'', releaseYear = 2002, image_path = ''src/assets/car_images/honda_pilot.jpg''\<rparr>,
        \<lparr>name = ''Fit'', releaseYear = 2001, image_path = ''src/assets/car_images/honda_fit.jpg''\<rparr>,
        \<lparr>name = ''Odyssey'', releaseYear = 1994, image_path = ''src/assets/car_images/honda_odyssey.jpg''\<rparr>,
        \<lparr>name = ''HR-V'', releaseYear = 1998, image_path = ''src/assets/car_images/honda_hrv.jpg''\<rparr>,
        \<lparr>name = ''Ridgeline'', releaseYear = 2005, image_path = ''src/assets/car_images/honda_ridgeline.jpg''\<rparr>]\<rparr>,
    \<lparr>brand = ''Chevrolet'',
     models = [
        \<lparr>name = ''Silverado'', releaseYear = 1998, image_path = ''src/assets/car_images/chevrolet_silverado.jpg''\<rparr>,
        \<lparr>name = ''Malibu'', releaseYear = 1964, image_path = ''src/assets/car_images/chevrolet_malibu.jpg''\<rparr>,
        \<lparr>name = ''Equinox'', releaseYear = 2004, image_path = ''src/assets/car_images/chevrolet_equinox.jpg''\<rparr>,
        \<lparr>name = ''Tahoe'', releaseYear = 1995, image_path = ''src/assets/car_images/chevrolet_tahoe.jpg''\<rparr>,
        \<lparr>name = ''Impala'', releaseYear = 1958, image_path = ''src/assets/car_images/chevrolet_impala.jpg''\<rparr>,
        \<lparr>name = ''Camaro'', releaseYear = 1966, image_path = ''src/assets/car_images/chevrolet_camaro.jpg''\<rparr>,
        \<lparr>name = ''Suburban'', releaseYear = 1935, image_path = ''src/assets/car_images/chevrolet_suburban.jpg''\<rparr>,
        \<lparr>name = ''Blazer'', releaseYear = 1969, image_path = ''src/assets/car_images/chevrolet_blazer.jpg''\<rparr>]\<rparr>,
    \<lparr>brand = ''BMW'',
     models = [
        \<lparr>name = ''3 Series'', releaseYear = 1975, image_path = ''src/assets/car_images/bmw_3_series.jpg''\<rparr>,
        \<lparr>name = ''5 Series'', releaseYear = 1972, image_path = ''src/assets/car_images/bmw_5_series.jpg''\<rparr>,
        \<lparr>name = ''X5'', releaseYear = 1999, image_path = ''src/assets/car_images/bmw_x5.jpg''\<rparr>,
        \<lparr>name = ''X3'', releaseYear = 2003, image_path = ''src/assets/car_images/bmw_x3.jpg''\<rparr>,
        \<lparr>name = ''7 Series'', releaseYear = 1977, image_path = ''src/assets/car_images/bmw_7_series.jpg''\<rparr>,
        \<lparr>name = ''1 Series'', releaseYear = 2004, image_path = ''src/assets/car_images/bmw_1_series.jpg''\<rparr>,
        \<lparr>name = ''Z4'', releaseYear = 2002, image_path = ''src/assets/car_images/bmw_z4.jpg''\<rparr>,
        \<lparr>name = ''i3'', releaseYear = 2013, image_path = ''src/assets/car_images/bmw_i3.jpg''\<rparr>]\<rparr>,
    \<lparr>brand = ''Mercedes-Benz'',
     models = [
        \<lparr>name = ''C-Class'', releaseYear = 1993, image_path = ''src/assets/car_images/mercedes_benz_c_class.jpg''\<rparr>,
        \<lparr>name = ''E-Class'', releaseYear = 1953, image_path = ''src/assets/car_images/mercedes_benz_e_class.jpg''\<rparr>,
        \<lparr>name = ''S-Class'', releaseYear = 1972, image_path = ''src/assets/car_images/mercedes_benz_s_class.jpg''\<rparr>,
        \<lparr>name = ''GLC'', releaseYear = 2015, image_path = ''src/assets/car_images/mercedes_benz_glc.jpg''\<rparr>,
        \<lparr>name = ''GLE'', releaseYear = 1997, image_path = ''src/assets/car_images/mercedes_benz_gle.jpg''\<rparr>,
        \<lparr>name = ''A-Class'', releaseYear = 1997, image_path = ''src/assets/car_images/mercedes_benz_a_class.jpg''\<rparr>,
        \<lparr>name = ''CLA'', releaseYear = 2013, image_path = ''src/assets/car_images/mercedes_benz_cla.jpg''\<rparr>,
        \<lparr>name = ''G-Class'', releaseYear = 1979, image_path = ''src/assets/car_images/mercedes_benz_g_class.jpg''\<rparr>]\<rparr>,
    \<lparr>brand = ''Audi'',
     models = [
        \<lparr>name = ''A4'', releaseYear = 1994, image_path = ''src/assets/car_images/audi_a4.jpg''\<rparr>,
        \<lparr>name = ''A6'', releaseYear = 1994, image_path = ''src/assets/car_images/audi_a6.jpg''\<rparr>,
        \<lparr>name = ''Q5'', releaseYear = 2008, image_path = ''src/assets/car_images/audi_q5.jpg''\<rparr>,
        \<lparr>name = ''Q7'', releaseYear = 2005, image_path = ''src/assets/car_images/audi_q7.jpg''\<rparr>,
        \<lparr>name = ''A3'', releaseYear = 1996, image_path = ''src/assets/car_images/audi_a3.jpg''\<rparr>,
        \<lparr>name = ''TT'', releaseYear = 1998, image_path = ''src/assets/car_images/audi_tt.jpg''\<rparr>,
        \<lparr>name = ''R8'', releaseYear = 2006, image_path = ''src/assets/car_images/audi_r8.jpg''\<rparr>,
        \<lparr>name = ''Q3'', releaseYear = 2011, image_path = ''src/assets/car_images/audi_q3.jpg''\<rparr>]\<rparr>,
    \<lparr>brand = ''Nissan'',
     models = [
        \<lparr>name = ''Altima'', releaseYear = 1992, image_path = ''src/assets/car_images/nissan_altima.jpg''\<rparr>,
        \<lparr>name = ''Sentra'', releaseYear = 1982, image_path = ''src/assets/car_images/nissan_sentra.jpg''\<rparr>,
        \<lparr>name = ''Rogue'', releaseYear = 2007, image_path = ''src/assets/car_images/nissan_rogue.jpg''\<rparr>,
        \<lparr>name = ''Pathfinder'', releaseYear = 1985, image_path = ''src/assets/car_images/nissan_pathfinder.jpg''\<rparr>,
        \<lparr>name = ''Leaf'', releaseYear = 2010, image_path = ''src/assets/car_images/nissan_leaf.jpg''\<rparr>,
        \<lparr>name = ''370Z'', releaseYear = 2009, image_path = ''src/assets/car_images/nissan_370z.jpg''\<rparr>,
        \<lparr>name = ''GT-R'', releaseYear = 2007, image_path = ''src/assets/car_images/nissan_gtr.jpg''\<rparr>,
        \<lparr>name = ''Murano'', releaseYear = 2002, image_path = ''src/assets/car_images/nissan_murano.jpg''\<rparr>]\<rparr>,
    \<lparr>brand = ''Hyundai'',
     models = [
        \<lparr>name = ''Elantra'', releaseYear = 1990, image_path = ''src/assets/car_images/hyundai_elantra.jpg''\<rparr>,
        \<lparr>name = ''Sonata'', releaseYear = 1985, image_path = ''src/assets/car_images/hyundai_sonata.jpg''\<rparr>,
        \<lparr>name = ''Tucson'', releaseYear = 2004, image_path = ''src/assets/car_images/hyundai_tucson.jpg''\<rparr>,
        \<lparr>name = ''Santa Fe'', releaseYear = 2000, image_path = ''src/assets/car_images/hyundai_santa_fe.jpg''\<rparr>,
        \<lparr>name = ''Kona'', releaseYear = 2017, image_path = ''src/assets/car_images/hyundai_kona.jpg''\<rparr>,
        \<lparr>name = ''Veloster'', releaseYear = 2011, image_path = ''src/assets/car_images/hyundai_veloster.jpg''\<rparr>,
        \<lparr>name = ''Palisade'', releaseYear = 2018, image_path = ''src/assets/car_images/hyundai_palisade.jpg''\<rparr>,
        \<lparr>name = ''Ioniq'', releaseYear = 2016, image_path = ''src/assets/car_images/hyundai_ioniq.jpg''\<rparr>]\<rparr>,
    \<lparr>brand = ''Volkswagen'',
     models = [
        \<lparr>name = ''Golf'', releaseYear = 1974, image_path = ''src/assets/car_images/volkswagen_golf.jpg''\<rparr>,
        \<lparr>name = ''Passat'', releaseYear = 1973, image_path = ''src/assets/car_images/volkswagen_passat.jpg''\<rparr>,
        \<lparr>name = ''Tiguan'', releaseYear = 2007, image_path = ''src/assets/car_images/volkswagen_tiguan.jpg''\<rparr>,
        \<lparr>name = ''Jetta'', releaseYear = 1979, image_path = ''src/assets/car_images/volkswagen_jetta.jpg''\<rparr>,
        \<lparr>name = ''Atlas'', releaseYear = 2017, image_path = ''src/assets/car_images/volkswagen_atlas.jpg''\<rparr>,
        \<lparr>name = ''Beetle'', releaseYear = 1938, image_path = ''src/assets/car_images/volkswagen_beetle.jpg''\<rparr>,
        \<lparr>name = ''Touareg'', releaseYear = 2002, image_path = ''src/assets/car_images/volkswagen_touareg.jpg''\<rparr>,
        \<lparr>name = ''ID.4'', releaseYear = 2020, image_path = ''src/assets/car_images/volkswagen_id4.jpg''\<rparr>]\<rparr>,
    \<lparr>brand = ''Tesla'',
     models = [
        \<lparr>name = ''Model S'', releaseYear = 2012, image_path = ''src/assets/car_images/tesla_model_s.jpg''\<rparr>,
        \<lparr>name = ''Model 3'', releaseYear = 2017, image_path = ''src/assets/car_images/tesla_model_3.jpg''\<rparr>,
        \<lparr>name = ''Model X'', releaseYear = 2015, image_path = ''src/assets/car_images/tesla_model_x.jpg''\<rparr>,
        \<lparr>name = ''Model Y'', releaseYear = 2020, image_path = ''src/assets/car_images/tesla_model_y.jpg''\<rparr>,
        \<lparr>name = ''Cybertruck'', releaseYear = 2021, image_path = ''src/assets/car_images/tesla_cybertruck.jpg''\<rparr>,
        \<lparr>name = ''Roadster'', releaseYear = 2008, image_path = ''src/assets/car_images/tesla_roadster.jpg''\<rparr>]\<rparr>,
    \<lparr>brand = ''Subaru'',
     models = [
        \<lparr>name = ''Outback'', releaseYear = 1994, image_path = ''src/assets/car_images/subaru_outback.jpg''\<rparr>,
        \<lparr>name = ''Forester'', releaseYear = 1997, image_path = ''src/assets/car_images/subaru_forester.jpg''\<rparr>,
        \<lparr>name = ''Impreza'', releaseYear = 1992, image_path = ''src/assets/car_images/subaru_impreza.jpg''\<rparr>,
        \<lparr>name = ''Crosstrek'', releaseYear = 2012, image_path = ''src/assets/car_images/subaru_crosstrek.jpg''\<rparr>,
        \<lparr>name = ''Ascent'', releaseYear = 2018, image_path = ''src/assets/car_images/subaru_ascent.jpg''\<rparr>,
        \<lparr>name = ''BRZ'', releaseYear = 2012, image_path = ''src/assets/car_images/subaru_brz.jpg''\<rparr>,
        \<lparr>name = ''Legacy'', releaseYear = 1989, image_path = ''src/assets/car_images/subaru_legacy.jpg''\<rparr>]\<rparr>,
    \<lparr>brand = ''Mazda'',
     models = [
        \<lparr>name = ''Mazda3'', releaseYear = 2003, image_path = ''src/assets/car_images/mazda_mazda3.jpg''\<rparr>,
        \<lparr>name = ''Mazda6'', releaseYear = 2002, image_path = ''src/assets/car_images/mazda_mazda6.jpg''\<rparr>,
        \<lparr>name = ''CX-5'', releaseYear = 2012, image_path = ''src/assets/car_images/mazda_cx5.jpg''\<rparr>,
        \<lparr>name = ''CX-9'', releaseYear = 2006, image_path = ''src/assets/car_images/mazda_cx9.jpg''\<rparr>,
        \<lparr>name = ''MX-5 Miata'', releaseYear = 1989, image_path = ''src/assets/car_images/mazda_mx5_miata.jpg''\<rparr>,
        \<lparr>name = ''CX-30'', releaseYear = 2019, image_path = ''src/assets/car_images/mazda_cx30.jpg''\<rparr>,
        \<lparr>name = ''RX-8'', releaseYear = 2003, image_path = ''src/assets/car_images/mazda_rx8.jpg''\<rparr>]\<rparr>,
    \<lparr>brand = ''Kia'',
     models = [
        \<lparr>name = ''Soul'', releaseYear = 2008, image_path = ''src/assets/car_images/kia_soul.jpg''\<rparr>,
        \<lparr>name = ''Sportage'', releaseYear = 1993, image_path = ''src/assets/car_images/kia_sportage.jpg''\<rparr>,
        \<lparr>name = ''Sorento'', releaseYear = 2002, image_path = ''src/assets/car_images/kia_sorento.jpg''\<rparr>,
        \<lparr>name = ''Optima'', releaseYear = 2000, image_path = ''src/assets/car_images/kia_optima.jpg''\<rparr>,
        \<lparr>name = ''Telluride'', releaseYear = 2019, image_path = ''src/assets/car_images/kia_telluride.jpg''\<rparr>,
        \<lparr>name = ''Stinger'', releaseYear = 2017, image_path = ''src/assets/car_images/kia_stinger.jpg''\<rparr>,
        \<lparr>name = ''Seltos'', releaseYear = 2019, image_path = ''src/assets/car_images/kia_seltos.jpg''\<rparr>]\<rparr>,
    \<lparr>brand = ''Jeep'',
     models = [
        \<lparr>name = ''Wrangler'', releaseYear = 1986, image_path = ''src/assets/car_images/jeep_wrangler.jpg''\<rparr>,
        \<lparr>name = ''Cherokee'', releaseYear = 1974, image_path = ''src/assets/car_images/jeep_cherokee.jpg''\<rparr>,
        \<lparr>name = ''Grand Cherokee'', releaseYear = 1992, image_path = ''src/assets/car_images/jeep_grand_cherokee.jpg''\<rparr>,
        \<lparr>name = ''Compass'', releaseYear = 2006, image_path = ''src/assets/car_images/jeep_compass.jpg''\<rparr>,
        \<lparr>name = ''Renegade'', releaseYear = 2014, image_path = ''src/assets/car_images/jeep_renegade.jpg''\<rparr>,
        \<lparr>name = ''Gladiator'', releaseYear = 2019, image_path = ''src/assets/car_images/jeep_gladiator.jpg''\<rparr>]\<rparr>,
    \<lparr>brand = ''Porsche'',
     models = [
        \<lparr>name = ''911'', releaseYear = 1964, image_path = ''src/assets/car_images/porsche_911.jpg''\<rparr>,
        \<lparr>name = ''Cayenne'', releaseYear = 2002, image_path = ''src/assets/car_images/porsche_cayenne.jpg''\<rparr>,
        \<lparr>name = ''Macan'', releaseYear = 2014, image_path = ''src/assets/car_images/porsche_macan.jpg''\<rparr>,
        \<lparr>name = ''Panamera'', releaseYear = 2009, image_path = ''src/assets/car_images/porsche_panamera.jpg''\<rparr>,
        \<lparr>name = ''Taycan'', releaseYear = 2019, image_path = ''src/assets/car_images/porsche_taycan.jpg''\<rparr>,
        \<lparr>name = ''Boxster'', releaseYear = 1996, image_path = ''src/assets/car_images/porsche_boxster.jpg''\<rparr>]\<rparr>,
    \<lparr>brand = ''Lexus'',
     models = [
        \<lparr>name = ''RX'', releaseYear = 1998, image_path = ''src/assets/car_images/lexus_rx.jpg''\<rparr>,
        \<lparr>name = ''ES'', releaseYear = 1989, image_path = ''src/assets/car_images/lexus_es.jpg''\<rparr>,
        \<lparr>name = ''NX'', releaseYear = 2014, image_path = ''src/assets/car_images/lexus_nx.jpg''\<rparr>,
        \<lparr>name = ''GX'', releaseYear = 2002, image_path = ''src/assets/car_images/lexus_gx.jpg''\<rparr>,
        \<lparr>name = ''LS'', releaseYear = 1989, image_path = ''src/assets/car_images/lexus_ls.jpg''\<rparr>,
        \<lparr>name = ''IS'', releaseYear = 1999, image_path = ''src/assets/car_images/lexus_is.jpg''\<rparr>]\<rparr>,
    \<lparr>brand = ''Volvo'',
     models = [
        \<lparr>name = ''XC90'', releaseYear = 2002, image_path = ''src/assets/car_images/volvo_xc90.jpg''\<rparr>,
        \<lparr>name = ''XC60'', releaseYear = 2008, image_path = ''src/assets/car_images/volvo_xc60.jpg''\<rparr>,
        \<lparr>name = ''S60'', releaseYear = 2000, image_path = ''src/assets/car_images/volvo_s60.jpg''\<rparr>,
        \<lparr>name = ''V60'', releaseYear = 2010, image_path = ''src/assets/car_images/volvo_v60.jpg''\<rparr>,
        \<lparr>name = ''XC40'', releaseYear = 2017, image_path = ''src/assets/car_images/volvo_xc40.jpg''\<rparr>,
        \<lparr>name = ''C40'', releaseYear = 2021, image_path = ''src/assets/car_images/volvo_c40.jpg''\<rparr>]\<rparr>,
    \<lparr>brand = ''Jaguar'',
     models = [
        \<lparr>name = ''XF'', releaseYear = 2007, image_path = ''src/assets/car_images/jaguar_xf.jpg''\<rparr>,
        \<lparr>name = ''XE'', releaseYear = 2015, image_path = ''src/assets/car_images/jaguar_xe.jpg''\<rparr>,
        \<lparr>name = ''F-Pace'', releaseYear = 2016, image_path = ''src/assets/car_images/jaguar_f_pace.jpg''\<rparr>,
        \<lparr>name = ''E-Pace'', releaseYear = 2017, image_path = ''src/assets/car_images/jaguar_e_pace.jpg''\<rparr>,
        \<lparr>name = ''I-Pace'', releaseYear = 2018, image_path = ''src/assets/car_images/jaguar_i_pace.jpg''\<rparr>,
        \<lparr>name = ''XJ'', releaseYear = 1968, image_path = ''src/assets/car_images/jaguar_xj.jpg''\<rparr>]\<rparr>,
    \<lparr>brand = ''Peugeot'',
     models = [
        \<lparr>name = ''208'', releaseYear = 2012, image_path = ''src/assets/car_images/peugeot_208.jpg''\<rparr>,
        \<lparr>name = ''308'', releaseYear = 2007, image_path = ''src/assets/car_images/peugeot_308.jpg''\<rparr>,
        \<lparr>name = ''508'', releaseYear = 2010, image_path = ''src/assets/car_images/peugeot_508.jpg''\<rparr>,
        \<lparr>name = ''2008'', releaseYear = 2013, image_path = ''src/assets/car_images/peugeot_2008.jpg''\<rparr>,
        \<lparr>name = ''3008'', releaseYear = 2008, image_path = ''src/assets/car_images/peugeot_3008.jpg''\<rparr>,
        \<lparr>name = ''5008'', releaseYear = 2009, image_path = ''src/assets/car_images/peugeot_5008.jpg''\<rparr>,
        \<lparr>name = ''Rifter'', releaseYear = 2018, image_path = ''src/assets/car_images/peugeot_rifter.jpg''\<rparr>]\<rparr>,
    \<lparr>brand = ''Fiat'',
     models = [
        \<lparr>name = ''500'', releaseYear = 1957, image_path = ''src/assets/car_images/fiat_500.jpg''\<rparr>,
        \<lparr>name = ''Panda'', releaseYear = 1980, image_path = ''src/assets/car_images/fiat_panda.jpg''\<rparr>,
        \<lparr>name = ''Tipo'', releaseYear = 1988, image_path = ''src/assets/car_images/fiat_tipo.jpg''\<rparr>,
        \<lparr>name = ''Punto'', releaseYear = 1993, image_path = ''src/assets/car_images/fiat_punto.jpg''\<rparr>,
        \<lparr>name = ''Doblo'', releaseYear = 2000, image_path = ''src/assets/car_images/fiat_doblo.jpg''\<rparr>,
        \<lparr>name = ''Toro'', releaseYear = 2016, image_path = ''src/assets/car_images/fiat_toro.jpg''\<rparr>,
        \<lparr>name = ''Strada'', releaseYear = 1996, image_path = ''src/assets/car_images/fiat_strada.jpg''\<rparr>]\<rparr>,
    \<lparr>brand = ''Renault'',
     models = [
        \<lparr>name = ''Clio'', releaseYear = 1990, image_path = ''src/assets/car_images/renault_clio.jpg''\<rparr>,
        \<lparr>name = ''Megane'', releaseYear = 1995, image_path = ''src/assets/car_images/renault_megane.jpg''\<rparr>,
        \<lparr>name = ''Captur'', releaseYear = 2013, image_path = ''src/assets/car_images/renault_captur.jpg''\<rparr>,
        \<lparr>name = ''Kadjar'', releaseYear = 2015, image_path = ''src/assets/car_images/renault_kadjar.jpg''\<rparr>,
        \<lparr>name = ''Twingo'', releaseYear = 1992, image_path = ''src/assets/car_images/renault_twingo.jpg''\<rparr>,
        \<lparr>name = ''Scenic'', releaseYear = 1996, image_path = ''src/assets/car_images/renault_scenic.jpg''\<rparr>,
        \<lparr>name = ''Koleos'', releaseYear = 2007, image_path = ''src/assets/car_images/renault_koleos.jpg''\<rparr>]\<rparr>,
    \<lparr>brand = ''Alfa Romeo'',
     models = [
        \<lparr>name = ''Giulia'', releaseYear = 2015, image_path = ''src/assets/car_images/alfa_romeo_giulia.jpg''\<rparr>,
        \<lparr>name = ''Stelvio'', releaseYear = 2016, image_path = ''src/assets/car_images/alfa_romeo_stelvio.jpg''\<rparr>,
        \<lparr>name = ''Tonale'', releaseYear = 2022, image_path = ''src/assets/car_images/alfa_romeo_tonale.jpg''\<rparr>,
        \<lparr>name = ''4C'', releaseYear = 2013, image_path = ''src/assets/car_images/alfa_romeo_4c.jpg''\<rparr>,
        \<lparr>name = ''MiTo'', releaseYear = 2008, image_path = ''src/assets/car_images/alfa_romeo_mito.jpg''\<rparr>,
        \<lparr>name = ''159'', releaseYear = 2005, image_path = ''src/assets/car_images/alfa_romeo_159.jpg''\<rparr>,
        \<lparr>name = ''Brera'', releaseYear = 2005, image_path = ''src/assets/car_images/alfa_romeo_brera.jpg''\<rparr>]\<rparr>,
    \<lparr>brand = (''Citro'' @ [CHR 0xEB] @ ''n''),
     models = [
        \<lparr>name = ''C3'', releaseYear = 2002, image_path = ''src/assets/car_images/citroen_c3.jpg''\<rparr>,
        \<lparr>name = ''C4'', releaseYear = 2004, image_path = ''src/assets/car_images/citroen_c4.jpg''\<rparr>,
        \<lparr>name = ''C5'', releaseYear = 2001, image_path = ''src/assets/car_images/citroen_c5.jpg''\<rparr>,
        \<lparr>name = ''Berlingo'', releaseYear = 1996, image_path = ''src/assets/car_images/citroen_berlingo.jpg''\<rparr>,
        \<lparr>name = ''Cactus'', releaseYear = 2014, image_path = ''src/assets/car_images/citroen_cactus.jpg''\<rparr>,
        \<lparr>name = ''DS3'', releaseYear = 2009, image_path = ''src/assets/car_images/citroen_ds3.jpg''\<rparr>,
        \<lparr>name = ''Ami'', releaseYear = 2020, image_path = ''src/assets/car_images/citroen_ami.jpg''\<rparr>]\<rparr>
  ]"

definition image_dir :: string where
  "image_dir = ''src/assets/car_images''"

definition SERPAPI_KEY :: string where
  "SERPAPI_KEY = ''8fd8e4fcce08f42d093496b0faf0377d27a15f18a84caf1f23f0be36976e3cb0''"

subsection \<open>The script\<close>

text \<open>\<^verbatim>\<open>os.makedirs(path, exist_ok=True)\<close> creates the directory and every missing parent.\<close>

definition dir_and_parents :: "string \<Rightarrow> string list" where
  "dir_and_parents path =
     [take i path. i \<leftarrow> [1..<length path], path ! i = CHR ''/''] @ [path]"

definition makedirs :: "env \<Rightarrow> string \<Rightarrow> unit io" where
  "makedirs env path w =
     (case makedirs_error env w path of
        Some e \<Rightarrow> (Inl e, w)
      | None \<Rightarrow> (Inr (), w\<lparr>dirs := dirs w \<union> set (dir_and_parents path)\<rparr>))"

text \<open>
  The body of the \<^verbatim>\<open>try\<close> block of \<^verbatim>\<open>download_image\<close>. Inside the \<^verbatim>\<open>with\<close> block each
  piece is written as the body stream yields it, and the stream's own failure, if any, is
  raised when the pieces that arrived are used up.
\<close>

definition download_image_try :: "env \<Rightarrow> json \<Rightarrow> string \<Rightarrow> unit io" where
  "download_image_try env url path =
     io_bind (requests_get env url True) (\<lambda>response.
       if status_code response = 200 then
         io_bind
           (with_open_wb env path
              (io_bind (for_each (file_write env path) (iter_content 1024 response)) (\<lambda>_.
               case raw_error response of Some e \<Rightarrow> io_raise e | None \<Rightarrow> io_return ())))
           (\<lambda>_. print env (''Downloaded: '' @ path))
       else
         print env (''Failed to download '' @ py_str env url @ '': ''
                      @ str_int (status_code response)))"

definition download_image :: "env \<Rightarrow> json \<Rightarrow> string \<Rightarrow> unit io" where
  "download_image env url path =
     try_except (download_image_try env url path)
       (\<lambda>e. print env (''Error downloading '' @ py_str env url @ '': '' @ exn_str e))"

text \<open>
  The body of the \<^verbatim>\<open>try\<close> block of \<^verbatim>\<open>fetch_image_url\<close>. Its value is \<open>Some v\<close> when the
  \<^verbatim>\<open>return\<close> inside the block ran with value \<open>v\<close>, and \<open>None\<close> when the block ran to its
  end, through the \<^verbatim>\<open>print\<close>.
\<close>

definition fetch_image_url_try :: "env \<Rightarrow> string \<Rightarrow> string \<Rightarrow> string \<Rightarrow> json option io" where
  "fetch_image_url_try env brand_name model_name api_key =
     (let query = brand_name @ '' '' @ model_name;
          url = ''https://serpapi.com/search.json?q='' @ query
                  @ ''&engine=google_images&ijn=0&api_key='' @ api_key
      in
      io_bind (requests_get env (JStr url) False) (\<lambda>response.
      io_bind
        (if status_code response = 200 then
           io_bind (io_lift (json_result response)) (\<lambda>data.
           io_bind (io_lift (py_get data ''images_results'' (JArr []))) (\<lambda>images_results.
           if truthy images_results then
             io_bind (io_lift (py_index0 images_results)) (\<lambda>first.
             io_bind (io_lift (py_get first ''thumbnail'' JNull)) (\<lambda>thumbnail.
             io_return (Some thumbnail)))
           else io_return None))
         else io_return None) (\<lambda>returned.
      case returned of
        Some v \<Rightarrow> io_return (Some v)
      | None \<Rightarrow>
          io_bind (print env (''No image found for '' @ brand_name @ '' '' @ model_name)) (\<lambda>_.
          io_return None))))"

text \<open>The \<^verbatim>\<open>except\<close> clause prints and falls through to the final \<^verbatim>\<open>return None\<close>.\<close>

definition fetch_image_url :: "env \<Rightarrow> string \<Rightarrow> string \<Rightarrow> string \<Rightarrow> json io" where
  "fetch_image_url env brand_name model_name api_key =
     io_bind
       (try_except (fetch_image_url_try env brand_name model_name api_key)
          (\<lambda>e. io_bind (print env (''Error fetching image URL for '' @ brand_name @ '' ''
                                      @ model_name @ '': '' @ exn_str e)) (\<lambda>_.
                io_return None)))
       (\<lambda>returned. io_return (case returned of Some v \<Rightarrow> v | None \<Rightarrow> JNull))"

text \<open>The body of the inner loop: one model of one brand.\<close>

definition process_model :: "env \<Rightarrow> string \<Rightarrow> car_model \<Rightarrow> unit io" where
  "process_model env brand_name model =
     io_bind (fetch_image_url env brand_name (name model) SERPAPI_KEY) (\<lambda>image_url.
     if truthy image_url then download_image env image_url (image_path model)
     else io_return ())"

text \<open>The two nested loops, over any catalog.\<close>

definition main_loop :: "env \<Rightarrow> car_brand list \<Rightarrow> unit io" where
  "main_loop env db =
     for_each (\<lambda>b. for_each (process_model env (brand b)) (models b)) db"

text \<open>The whole script: the directory first, then the loop over the static catalog.\<close>

definition script :: "env \<Rightarrow> unit io" where
  "script env = io_bind (makedirs env image_dir) (\<lambda>_. main_loop env car_database)"

subsection \<open>Vocabulary of the properties\<close>

text \<open>The URL the search request is expected to go to: the query is brand, one space, model.\<close>

definition search_url :: "string \<Rightarrow> string \<Rightarrow> string \<Rightarrow> string" where
  "search_url brand_name model_name api_key =
     ''https://serpapi.com/search.json?q='' @ brand_name @ '' '' @ model_name
       @ ''&engine=google_images&ijn=0&api_key='' @ api_key"

text \<open>The (brand, model) pairs of a catalog in processing order.\<close>

definition catalog_entries :: "car_brand list \<Rightarrow> (string \<times> car_model) list" where
  "catalog_entries db = concat (map (\<lambda>b. map (\<lambda>m. (brand b, m)) (models b)) db)"

text \<open>A line mentions a text when the text occurs in it as a contiguous piece.\<close>

fun starts_with :: "string \<Rightarrow> string \<Rightarrow> bool" where
  "starts_with [] line = True"
| "starts_with (c # cs) [] = False"
| "starts_with (c # cs) (d # ds) = (c = d \<and> starts_with cs ds)"

fun mentions :: "string \<Rightarrow> string \<Rightarrow> bool" where
  "mentions [] t = (t = [])"
| "mentions (d # ds) t = (starts_with t (d # ds) \<or> mentions ds t)"

text \<open>The search requests of a request log: those issued without the \<^verbatim>\<open>stream\<close> flag.\<close>

definition searches :: "(json \<times> bool) list \<Rightarrow> (json \<times> bool) list" where
  "searches rs = filter (\<lambda>r. \<not> snd r) rs"

text \<open>The search request the loop is expected to issue for an entry.\<close>

definition search_of :: "string \<times> car_model \<Rightarrow> json \<times> bool" where
  "search_of e = (JStr (search_url (fst e) (name (snd e)) SERPAPI_KEY), False)"

text \<open>A catalog without its release years.\<close>

definition erase_years :: "car_brand list \<Rightarrow> (string \<times> (string \<times> string) list) list" where
  "erase_years db = map (\<lambda>b. (brand b, map (\<lambda>m. (name m, image_path m)) (models b))) db"

text \<open>A path lies directly in a directory: it is the directory, a slash and a file name,
  which is not empty, has no slash in it and is neither \<^verbatim>\<open>.\<close> nor \<^verbatim>\<open>..\<close>.\<close>

definition under_dir :: "string \<Rightarrow> string \<Rightarrow> bool" where
  "under_dir d p =
     (let f = drop (length d + 1) p in
      take (length d + 1) p = d @ ''/'' \<and> f \<noteq> [] \<and> f \<noteq> ''.'' \<and> f \<noteq> ''..''
        \<and> CHR ''/'' \<notin> set f)"

text \<open>
  The thumbnail of the first search result, when the answer has status 200 and decodes to
  an object whose \<^verbatim>\<open>images_results\<close> is a non-empty list that starts with an object:
  the value of its \<^verbatim>\<open>thumbnail\<close> field, or \<^verbatim>\<open>None\<close> when it has none.
\<close>

definition first_thumbnail :: "response \<Rightarrow> json option" where
  "first_thumbnail resp =
     (if status_code resp = 200 then
        (case json_result resp of
           Inr (JObj d) \<Rightarrow>
             (case map_of d ''images_results'' of
                Some (JArr (JObj f # rest)) \<Rightarrow>
                  Some (case map_of f ''thumbnail'' of Some v \<Rightarrow> v | None \<Rightarrow> JNull)
              | _ \<Rightarrow> None)
         | _ \<Rightarrow> None)
      else None)"

text \<open>The search for an entry found a first result whose thumbnail is missing or falsy.\<close>

definition thumbnail_unusable :: "env \<Rightarrow> world \<Rightarrow> string \<Rightarrow> car_model \<Rightarrow> bool" where
  "thumbnail_unusable env w b m =
     (case get_result env w (JStr (search_url b (name m) SERPAPI_KEY)) False of
        Inl e \<Rightarrow> False
      | Inr resp \<Rightarrow> (case first_thumbnail resp of None \<Rightarrow> False | Some v \<Rightarrow> \<not> truthy v))"

text \<open>
  What the search stage comes to, read off the answer to the search request alone: the
  exception raised in the \<^verbatim>\<open>try\<close> block, the value of the \<^verbatim>\<open>return\<close> inside it
  (\<open>Some\<close>), or the fall-through to the \<^verbatim>\<open>No image found\<close> line (\<open>None\<close>).
\<close>

definition search_outcome :: "exn + response \<Rightarrow> exn + json option" where
  "search_outcome answer =
     (case answer of
        Inl e \<Rightarrow> Inl e
      | Inr response \<Rightarrow>
          if status_code response = 200 then
            (case json_result response of
               Inl e \<Rightarrow> Inl e
             | Inr data \<Rightarrow>
                 (case py_get data ''images_results'' (JArr []) of
                    Inl e \<Rightarrow> Inl e
                  | Inr images_results \<Rightarrow>
                      if truthy images_results then
                        (case py_index0 images_results of
                           Inl e \<Rightarrow> Inl e
                         | Inr first \<Rightarrow>
                             (case py_get first ''thumbnail'' JNull of
                                Inl e \<Rightarrow> Inl e
                              | Inr thumbnail \<Rightarrow> Inr (Some thumbnail)))
                      else Inr None))
          else Inr None)"

text \<open>The body of a response as the download receives it: the delivered pieces, put
  together.\<close>

definition received_body :: "response \<Rightarrow> string" where
  "received_body response = concat (iter_content 1024 response)"

text \<open>
  An exception that the body stream, \<^verbatim>\<open>open\<close>, \<^verbatim>\<open>file.write\<close> or the close of the file can
  raise while a response is saved to a path.
\<close>

definition raised_while_saving :: "env \<Rightarrow> response \<Rightarrow> string \<Rightarrow> exn \<Rightarrow> bool" where
  "raised_while_saving env response path e =
     (raw_error response = Some e
      \<or> (\<exists>w. open_error env w path = Some e)
      \<or> (\<exists>w chunk left. write_error env w path chunk = Some (e, left))
      \<or> (\<exists>w left. close_error env w path = Some (e, left)))"

text \<open>
  Fixed-size chunks, as the specification words them: a text cut into pieces of \<open>n\<close>
  bytes, the last one shorter when the length is no multiple of \<open>n\<close>.
\<close>

function fixed_size_chunks :: "nat \<Rightarrow> string \<Rightarrow> string list" where
  "fixed_size_chunks n bs =
     (if n = 0 \<or> bs = [] then [] else take n bs # fixed_size_chunks n (drop n bs))"
  by pat_completeness auto
termination
  by (relation "measure (\<lambda>(n, bs). length bs)") auto

declare fixed_size_chunks.simps [simp del]

text \<open>Standard output takes the lines of the two \<^verbatim>\<open>except\<close> clauses.\<close>

definition error_lines_printable :: "env \<Rightarrow> bool" where
  "error_lines_printable env =
     ((\<forall>w b m e. print_error env w (''Error fetching image URL for '' @ b @ '' '' @ m
                                      @ '': '' @ exn_str e) = None)
      \<and> (\<forall>w url e. print_error env w (''Error downloading '' @ py_str env url
                                      @ '': '' @ exn_str e) = None))"

subsection \<open>Concrete scenarios\<close>

text \<open>An empty world, and an environment that answers every search with one result and
  every download with another, on a filesystem and a standard output that never fail.\<close>

definition world0 :: world where
  "world0 = \<lparr>files = Map.empty, dirs = {}, out = [], reqs = [], writes = []\<rparr>"

text \<open>A response whose body is delivered in the given pieces, and one whose body comes in
  one piece.\<close>

definition pieces_response :: "int \<Rightarrow> exn + json \<Rightarrow> string list \<Rightarrow> response" where
  "pieces_response code js pieces =
     \<lparr>status_code = code, json_result = js, delivered = (\<lambda>n. pieces), raw_error = None\<rparr>"

definition plain_response :: "int \<Rightarrow> exn + json \<Rightarrow> string \<Rightarrow> response" where
  "plain_response code js body =
     pieces_response code js (if body = [] then [] else [body])"

definition scenario :: "exn + response \<Rightarrow> exn + response \<Rightarrow> env" where
  "scenario search download =
     \<lparr>get_result = (\<lambda>w url stream. if stream then download else search),
      open_error = (\<lambda>w path. None),
      write_error = (\<lambda>w path chunk. None),
      close_error = (\<lambda>w path. None),
      makedirs_error = (\<lambda>w path. None),
      print_error = (\<lambda>w line. None),
      repr = (\<lambda>v. ''<repr>'')\<rparr>"

text \<open>A standard output that encodes ASCII only, and a disk that is full when the file is
  closed.\<close>

definition ascii_stdout :: "world \<Rightarrow> string \<Rightarrow> exn option" where
  "ascii_stdout w line =
     (if list_ex (\<lambda>c. 127 < (of_char c :: nat)) line
      then Some (OtherException ''UnicodeEncodeError''
                   ''ascii codec cannot encode character: ordinal not in range(128)'')
      else None)"

definition disk_full :: "world \<Rightarrow> string \<Rightarrow> (exn \<times> string) option" where
  "disk_full w path =
     Some (OtherException ''OSError'' ''[Errno 28] No space left on device'', [])"

definition not_json :: "exn + json" where
  "not_json =
     Inl (OtherException ''JSONDecodeError'' ''Expecting value: line 1 column 1 (char 0)'')"

definition results_json :: "json list \<Rightarrow> exn + json" where
  "results_json rs = Inr (JObj [(''images_results'', JArr rs)])"

definition corolla :: car_model where
  "corolla = \<lparr>name = ''Corolla'', releaseYear = 1966, image_path = ''out/toyota_corolla.jpg''\<rparr>"

text \<open>The first two entries of the last brand of the catalog.\<close>

definition citroen :: car_brand where
  "citroen =
     \<lparr>brand = ''Citro'' @ [CHR 0xEB] @ ''n'',
      models = [
        \<lparr>name = ''C3'', releaseYear = 2002, image_path = ''src/assets/car_images/citroen_c3.jpg''\<rparr>,
        \<lparr>name = ''C4'', releaseYear = 2004, image_path = ''src/assets/car_images/citroen_c4.jpg''\<rparr>]\<rparr>"

section \<open>Properties\<close>

lemmas io_defs = io_bind_def io_return_def io_raise_def io_lift_def try_except_def
  print_def requests_get_def

lemma str_int_404: "str_int 404 = ''404''"
  by (simp add: str_int_def str_nat.simps)

lemma str_int_500: "str_int 500 = ''500''"
  by (simp add: str_int_def str_nat.simps)

lemma scenario_prints [simp]: "print_error (scenario s d) w line = None"
  by (simp add: scenario_def)

subsection \<open>A download that is not answered with 200\<close>

text \<open>
  C3. Whenever the download GET is answered with a status other than 200,
  \<^verbatim>\<open>download_image\<close> leaves the files (the destination among them, present or not) as they
  were and writes nothing; and, standard output taking the line, it prints one line made
  of the URL and the status code and does nothing else: the request is logged and no
  exception leaves the function.
\<close>

theorem download_image_not_200:
  assumes "get_result env w url True = Inr resp" and "status_code resp \<noteq> 200"
  shows "files (snd (download_image env url path w)) = files w
         \<and> writes (snd (download_image env url path w)) = writes w
         \<and> (print_error env (w\<lparr>reqs := reqs w @ [(url, True)]\<rparr>)
               (''Failed to download '' @ py_str env url @ '': '' @ str_int (status_code resp))
               = None
             \<longrightarrow> download_image env url path w =
                   (Inr (), w\<lparr>reqs := reqs w @ [(url, True)],
                               out := out w @ [''Failed to download '' @ py_str env url @ '': ''
                                                 @ str_int (status_code resp)]\<rparr>))"
  using assms
  by (simp add: download_image_def download_image_try_def io_defs split: option.splits)

theorem download_image_not_200_witness:
  "get_result (scenario (Inl (KeyError ''k'')) (Inr (plain_response 404 not_json ''Not Found'')))
      (world0\<lparr>files := [''out/toyota_corolla.jpg'' \<mapsto> ''OLD'']\<rparr>) (JStr ''http://x/img.jpg'') True
     = Inr (plain_response 404 not_json ''Not Found'')
   \<and> status_code (plain_response 404 not_json ''Not Found'') \<noteq> 200
   \<and> download_image (scenario (Inl (KeyError ''k'')) (Inr (plain_response 404 not_json ''Not Found'')))
        (JStr ''http://x/img.jpg'') ''out/toyota_corolla.jpg''
        (world0\<lparr>files := [''out/toyota_corolla.jpg'' \<mapsto> ''OLD'']\<rparr>)
     = (Inr (), \<lparr>files = [''out/toyota_corolla.jpg'' \<mapsto> ''OLD''], dirs = {},
                 out = [''Failed to download http://x/img.jpg: 404''],
                 reqs = [(JStr ''http://x/img.jpg'', True)], writes = []\<rparr>)"
proof -
  let ?r = "plain_response 404 not_json ''Not Found''"
  let ?env = "scenario (Inl (KeyError ''k'')) (Inr ?r)"
  let ?w = "world0\<lparr>files := [''out/toyota_corolla.jpg'' \<mapsto> ''OLD'']\<rparr>"
  have g: "get_result ?env ?w (JStr ''http://x/img.jpg'') True = Inr ?r"
    by (simp add: scenario_def)
  have s: "status_code ?r \<noteq> 200"
    by (simp add: plain_response_def pieces_response_def)
  have c: "status_code ?r = 404"
    by (simp add: plain_response_def pieces_response_def)
  show ?thesis
    using download_image_not_200 [OF g s, of "''out/toyota_corolla.jpg''"] g s
    by (simp add: c str_int_404 py_str_def world0_def)
qed

subsection \<open>What \<^verbatim>\<open>fetch_image_url\<close> does with the search answer\<close>

lemma fetch_not_200:
  assumes "get_result env w (JStr (search_url b m k)) False = Inr resp"
    and "status_code resp \<noteq> 200"
    and "print_error env (w\<lparr>reqs := reqs w @ [(JStr (search_url b m k), False)]\<rparr>)
           (''No image found for '' @ b @ '' '' @ m) = None"
  shows "fetch_image_url env b m k w =
           (Inr JNull, w\<lparr>reqs := reqs w @ [(JStr (search_url b m k), False)],
                          out := out w @ [''No image found for '' @ b @ '' '' @ m]\<rparr>)"
  using assms
  by (simp add: fetch_image_url_def fetch_image_url_try_def io_defs search_url_def Let_def)

lemma fetch_empty_results:
  assumes "get_result env w (JStr (search_url b m k)) False = Inr resp"
    and "status_code resp = 200"
    and "json_result resp = Inr (JObj d)"
    and "map_of d ''images_results'' = Some (JArr [])"
    and "print_error env (w\<lparr>reqs := reqs w @ [(JStr (search_url b m k), False)]\<rparr>)
           (''No image found for '' @ b @ '' '' @ m) = None"
  shows "fetch_image_url env b m k w =
           (Inr JNull, w\<lparr>reqs := reqs w @ [(JStr (search_url b m k), False)],
                          out := out w @ [''No image found for '' @ b @ '' '' @ m]\<rparr>)"
  using assms
  by (simp add: fetch_image_url_def fetch_image_url_try_def io_defs search_url_def Let_def)

lemma fetch_first_thumbnail:
  assumes "get_result env w (JStr (search_url b m k)) False = Inr resp"
    and "status_code resp = 200"
    and "json_result resp = Inr (JObj d)"
    and "map_of d ''images_results'' = Some (JArr (JObj f # rest))"
  shows "fetch_image_url env b m k w =
           (Inr (case map_of f ''thumbnail'' of Some v \<Rightarrow> v | None \<Rightarrow> JNull),
            w\<lparr>reqs := reqs w @ [(JStr (search_url b m k), False)]\<rparr>)"
  using assms
  by (simp add: fetch_image_url_def fetch_image_url_try_def io_defs search_url_def Let_def)

text \<open>Whatever happens, \<^verbatim>\<open>fetch_image_url\<close> issues its one request and touches no file.\<close>

lemma fetch_frame:
  "reqs (snd (fetch_image_url env b m k w)) = reqs w @ [(JStr (search_url b m k), False)]
   \<and> files (snd (fetch_image_url env b m k w)) = files w
   \<and> writes (snd (fetch_image_url env b m k w)) = writes w"
  by (simp add: fetch_image_url_def fetch_image_url_try_def io_defs search_url_def Let_def
      split: sum.splits option.splits prod.splits if_splits)

lemma fetch_reqs:
  "reqs (snd (fetch_image_url env b m k w)) = reqs w @ [(JStr (search_url b m k), False)]"
  by (simp add: fetch_frame)

text \<open>
  C4, as the code has it. When the search is answered with a status other than 200,
  \<^verbatim>\<open>fetch_image_url\<close> prints the same line as for an empty result list,
  \<^verbatim>\<open>No image found for <brand> <model>\<close>, and, standard output taking that line, returns
  \<^verbatim>\<open>None\<close>: the status code is not part of what is printed.
\<close>

theorem fetch_image_url_not_200:
  assumes "get_result env w (JStr (search_url b m k)) False = Inr resp"
    and "status_code resp \<noteq> 200"
    and "print_error env (w\<lparr>reqs := reqs w @ [(JStr (search_url b m k), False)]\<rparr>)
           (''No image found for '' @ b @ '' '' @ m) = None"
  shows "fst (fetch_image_url env b m k w) = Inr JNull
         \<and> out (snd (fetch_image_url env b m k w))
             = out w @ [''No image found for '' @ b @ '' '' @ m]"
  using fetch_not_200 [OF assms] by simp

theorem fetch_image_url_not_200_witness:
  "get_result (scenario (Inr (plain_response 500 not_json ''Internal Server Error'')) (Inl (KeyError ''k'')))
      world0 (JStr (search_url ''Toyota'' ''Corolla'' SERPAPI_KEY)) False
     = Inr (plain_response 500 not_json ''Internal Server Error'')
   \<and> status_code (plain_response 500 not_json ''Internal Server Error'') \<noteq> 200
   \<and> print_error (scenario (Inr (plain_response 500 not_json ''Internal Server Error'')) (Inl (KeyError ''k'')))
        (world0\<lparr>reqs := reqs world0
           @ [(JStr (search_url ''Toyota'' ''Corolla'' SERPAPI_KEY), False)]\<rparr>)
        (''No image found for '' @ ''Toyota'' @ '' '' @ ''Corolla'') = None
   \<and> fst (fetch_image_url (scenario (Inr (plain_response 500 not_json ''Internal Server Error'')) (Inl (KeyError ''k'')))
        ''Toyota'' ''Corolla'' SERPAPI_KEY world0) = Inr JNull
   \<and> out (snd (fetch_image_url (scenario (Inr (plain_response 500 not_json ''Internal Server Error'')) (Inl (KeyError ''k'')))
        ''Toyota'' ''Corolla'' SERPAPI_KEY world0)) = [''No image found for Toyota Corolla'']"
proof -
  let ?r = "plain_response 500 not_json ''Internal Server Error''"
  let ?env = "scenario (Inr ?r) (Inl (KeyError ''k''))"
  have g: "get_result ?env world0 (JStr (search_url ''Toyota'' ''Corolla'' SERPAPI_KEY)) False = Inr ?r"
    by (simp add: scenario_def)
  have s: "status_code ?r \<noteq> 200"
    by (simp add: plain_response_def pieces_response_def)
  have p: "print_error ?env (world0\<lparr>reqs := reqs world0
             @ [(JStr (search_url ''Toyota'' ''Corolla'' SERPAPI_KEY), False)]\<rparr>)
             (''No image found for '' @ ''Toyota'' @ '' '' @ ''Corolla'') = None"
    by (rule scenario_prints)
  show ?thesis
    using fetch_image_url_not_200 [OF g s p] g s p by (simp add: world0_def)
qed

text \<open>
  The claim C4 as the specification words it fails: answered with status 500 for Toyota
  Corolla, the only line printed is \<^verbatim>\<open>No image found for Toyota Corolla\<close>, and the code
  500 occurs nowhere in it.
\<close>

theorem fetch_image_url_status_not_reported:
  "status_code (plain_response 500 not_json ''Internal Server Error'') = 500
   \<and> out (snd (fetch_image_url (scenario (Inr (plain_response 500 not_json ''Internal Server Error'')) (Inl (KeyError ''k'')))
        ''Toyota'' ''Corolla'' SERPAPI_KEY world0)) = [''No image found for Toyota Corolla'']
   \<and> \<not> mentions ''No image found for Toyota Corolla'' (str_int 500)"
proof -
  let ?r = "plain_response 500 not_json ''Internal Server Error''"
  let ?env = "scenario (Inr ?r) (Inl (KeyError ''k''))"
  have g: "get_result ?env world0 (JStr (search_url ''Toyota'' ''Corolla'' SERPAPI_KEY)) False = Inr ?r"
    by (simp add: scenario_def)
  have s: "status_code ?r \<noteq> 200"
    by (simp add: plain_response_def pieces_response_def)
  have "out (snd (fetch_image_url ?env ''Toyota'' ''Corolla'' SERPAPI_KEY world0))
          = [''No image found for Toyota Corolla'']"
    using fetch_not_200 [OF g s scenario_prints] by (simp add: world0_def)
  then show ?thesis
    by (simp add: str_int_500 plain_response_def pieces_response_def)
qed

text \<open>
  C5. \<^verbatim>\<open>fetch_image_url\<close> issues exactly one GET, without the \<^verbatim>\<open>stream\<close> flag, to the
  endpoint with \<^verbatim>\<open>q=<brand> <model>\<close> (the two joined by one space, nothing escaped),
  \<^verbatim>\<open>engine=google_images\<close>, \<^verbatim>\<open>ijn=0\<close> and the API key; and when the answer has status
  200 and a non-empty \<^verbatim>\<open>images_results\<close> array whose first entry is an object, the value
  returned is that entry's \<^verbatim>\<open>thumbnail\<close> field (\<^verbatim>\<open>None\<close> when the entry has none).
\<close>

theorem fetch_image_url_request_and_result:
  "reqs (snd (fetch_image_url env b m k w))
     = reqs w @ [(JStr (''https://serpapi.com/search.json?q='' @ b @ '' '' @ m
                          @ ''&engine=google_images&ijn=0&api_key='' @ k), False)]
   \<and> (get_result env w (JStr (search_url b m k)) False = Inr resp
        \<longrightarrow> status_code resp = 200
        \<longrightarrow> json_result resp = Inr (JObj d)
        \<longrightarrow> map_of d ''images_results'' = Some (JArr (JObj f # rest))
        \<longrightarrow> fst (fetch_image_url env b m k w)
              = Inr (case map_of f ''thumbnail'' of Some v \<Rightarrow> v | None \<Rightarrow> JNull))"
proof (intro conjI impI)
  show "reqs (snd (fetch_image_url env b m k w))
     = reqs w @ [(JStr (''https://serpapi.com/search.json?q='' @ b @ '' '' @ m
                          @ ''&engine=google_images&ijn=0&api_key='' @ k), False)]"
    using fetch_reqs [of env b m k w] by (simp add: search_url_def)
next
  assume "get_result env w (JStr (search_url b m k)) False = Inr resp"
    and "status_code resp = 200"
    and "json_result resp = Inr (JObj d)"
    and "map_of d ''images_results'' = Some (JArr (JObj f # rest))"
  then show "fst (fetch_image_url env b m k w)
              = Inr (case map_of f ''thumbnail'' of Some v \<Rightarrow> v | None \<Rightarrow> JNull)"
    by (simp add: fetch_first_thumbnail)
qed

theorem fetch_image_url_request_and_result_witness:
  "get_result (scenario (Inr (plain_response 200
        (results_json [JObj [(''thumbnail'', JStr ''http://x/img.jpg'')]]) [])) (Inl (KeyError ''k'')))
      world0 (JStr (search_url ''Toyota'' ''Corolla'' ''KEY'')) False
     = Inr (plain_response 200 (results_json [JObj [(''thumbnail'', JStr ''http://x/img.jpg'')]]) [])
   \<and> status_code (plain_response 200
        (results_json [JObj [(''thumbnail'', JStr ''http://x/img.jpg'')]]) []) = 200
   \<and> json_result (plain_response 200
        (results_json [JObj [(''thumbnail'', JStr ''http://x/img.jpg'')]]) [])
       = Inr (JObj [(''images_results'', JArr [JObj [(''thumbnail'', JStr ''http://x/img.jpg'')]])])
   \<and> map_of [(''images_results'', JArr [JObj [(''thumbnail'', JStr ''http://x/img.jpg'')]])]
        ''images_results'' = Some (JArr (JObj [(''thumbnail'', JStr ''http://x/img.jpg'')] # []))
   \<and> reqs (snd (fetch_image_url (scenario (Inr (plain_response 200
        (results_json [JObj [(''thumbnail'', JStr ''http://x/img.jpg'')]]) [])) (Inl (KeyError ''k'')))
        ''Toyota'' ''Corolla'' ''KEY'' world0))
       = [(JStr ''https://serpapi.com/search.json?q=Toyota Corolla&engine=google_images&ijn=0&api_key=KEY'',
           False)]
   \<and> fst (fetch_image_url (scenario (Inr (plain_response 200
        (results_json [JObj [(''thumbnail'', JStr ''http://x/img.jpg'')]]) [])) (Inl (KeyError ''k'')))
        ''Toyota'' ''Corolla'' ''KEY'' world0) = Inr (JStr ''http://x/img.jpg'')"
proof -
  let ?f = "[(''thumbnail'', JStr ''http://x/img.jpg'')]"
  let ?d = "[(''images_results'', JArr [JObj ?f])]"
  let ?r = "plain_response 200 (results_json [JObj ?f]) []"
  let ?env = "scenario (Inr ?r) (Inl (KeyError ''k''))"
  have g: "get_result ?env world0 (JStr (search_url ''Toyota'' ''Corolla'' ''KEY'')) False = Inr ?r"
    by (simp add: scenario_def)
  have s: "status_code ?r = 200"
    by (simp add: plain_response_def pieces_response_def)
  have j: "json_result ?r = Inr (JObj ?d)"
    by (simp add: plain_response_def pieces_response_def results_json_def)
  have i: "map_of ?d ''images_results'' = Some (JArr (JObj ?f # []))"
    by simp
  show ?thesis
    using fetch_image_url_request_and_result
      [of ?env "''Toyota''" "''Corolla''" "''KEY''" world0 ?r ?d ?f "[]"] g s j i
    by (simp add: world0_def)
qed

subsection \<open>The truthiness test of the orchestrator\<close>

lemma process_model_unfold:
  assumes "fetch_image_url env b (name m) SERPAPI_KEY w = (Inr v, w1)"
  shows "process_model env b m w =
           (if truthy v then download_image env v (image_path m) w1 else (Inr (), w1))"
  using assms by (simp add: process_model_def io_bind_def io_return_def)

lemma process_model_no_url:
  assumes "\<forall>u. fst (fetch_image_url env b (name m) SERPAPI_KEY w) = Inr u \<longrightarrow> \<not> truthy u"
  shows "snd (process_model env b m w) = snd (fetch_image_url env b (name m) SERPAPI_KEY w)"
  using assms
  by (cases "fetch_image_url env b (name m) SERPAPI_KEY w")
    (auto simp add: process_model_def io_bind_def io_return_def split: sum.splits)

lemma fetch_empty_results_no_url:
  assumes "get_result env w (JStr (search_url b m k)) False = Inr resp"
    and "status_code resp = 200"
    and "json_result resp = Inr (JObj d)"
    and "map_of d ''images_results'' = Some (JArr [])"
  shows "fst (fetch_image_url env b m k w) = Inr u \<longrightarrow> \<not> truthy u"
  using assms
  by (simp add: fetch_image_url_def fetch_image_url_try_def io_defs search_url_def Let_def
      split: option.splits)

text \<open>
  C7. When the search for an entry is answered with status 200 and an empty
  \<^verbatim>\<open>images_results\<close> array, the loop body does not call \<^verbatim>\<open>download_image\<close>: the search is
  the only request of the entry, and nothing is opened or written. Standard output taking
  the \<^verbatim>\<open>No image found\<close> line, \<^verbatim>\<open>fetch_image_url\<close> returns \<^verbatim>\<open>None\<close> and that line is all
  the entry prints.
\<close>

theorem process_model_empty_results:
  assumes "get_result env w (JStr (search_url b (name m) SERPAPI_KEY)) False = Inr resp"
    and "status_code resp = 200"
    and "json_result resp = Inr (JObj d)"
    and "map_of d ''images_results'' = Some (JArr [])"
  shows "reqs (snd (process_model env b m w))
           = reqs w @ [(JStr (search_url b (name m) SERPAPI_KEY), False)]
         \<and> files (snd (process_model env b m w)) = files w
         \<and> writes (snd (process_model env b m w)) = writes w
         \<and> (print_error env
               (w\<lparr>reqs := reqs w @ [(JStr (search_url b (name m) SERPAPI_KEY), False)]\<rparr>)
               (''No image found for '' @ b @ '' '' @ name m) = None
             \<longrightarrow> fst (fetch_image_url env b (name m) SERPAPI_KEY w) = Inr JNull
                 \<and> process_model env b m w =
                     (Inr (), w\<lparr>reqs := reqs w
                                   @ [(JStr (search_url b (name m) SERPAPI_KEY), False)],
                                 out := out w @ [''No image found for '' @ b @ '' ''
                                                   @ name m]\<rparr>))"
proof -
  have "\<forall>u. fst (fetch_image_url env b (name m) SERPAPI_KEY w) = Inr u \<longrightarrow> \<not> truthy u"
    using fetch_empty_results_no_url [OF assms] by blast
  then have "snd (process_model env b m w) = snd (fetch_image_url env b (name m) SERPAPI_KEY w)"
    by (rule process_model_no_url)
  then have frame: "reqs (snd (process_model env b m w))
           = reqs w @ [(JStr (search_url b (name m) SERPAPI_KEY), False)]
         \<and> files (snd (process_model env b m w)) = files w
         \<and> writes (snd (process_model env b m w)) = writes w"
    by (simp add: fetch_frame)
  have "fst (fetch_image_url env b (name m) SERPAPI_KEY w) = Inr JNull
          \<and> process_model env b m w =
              (Inr (), w\<lparr>reqs := reqs w @ [(JStr (search_url b (name m) SERPAPI_KEY), False)],
                          out := out w @ [''No image found for '' @ b @ '' '' @ name m]\<rparr>)"
    if "print_error env
          (w\<lparr>reqs := reqs w @ [(JStr (search_url b (name m) SERPAPI_KEY), False)]\<rparr>)
          (''No image found for '' @ b @ '' '' @ name m) = None"
    using fetch_empty_results [OF assms that]
    by (simp add: process_model_def io_bind_def io_return_def)
  with frame show ?thesis
    by blast
qed

theorem process_model_empty_results_witness:
  "get_result (scenario (Inr (plain_response 200 (results_json []) [])) (Inl (KeyError ''k'')))
      world0 (JStr (search_url ''Toyota'' (name corolla) SERPAPI_KEY)) False
     = Inr (plain_response 200 (results_json []) [])
   \<and> status_code (plain_response 200 (results_json []) []) = 200
   \<and> json_result (plain_response 200 (results_json []) [])
       = Inr (JObj [(''images_results'', JArr [])])
   \<and> map_of [(''images_results'', JArr [])] ''images_results'' = Some (JArr [])
   \<and> process_model (scenario (Inr (plain_response 200 (results_json []) [])) (Inl (KeyError ''k'')))
        ''Toyota'' corolla world0
     = (Inr (), \<lparr>files = Map.empty, dirs = {},
                 out = [''No image found for Toyota Corolla''],
                 reqs = [(JStr (search_url ''Toyota'' ''Corolla'' SERPAPI_KEY), False)],
                 writes = []\<rparr>)"
proof -
  let ?d = "[(''images_results'', JArr [])]"
  let ?r = "plain_response 200 (results_json []) []"
  let ?env = "scenario (Inr ?r) (Inl (KeyError ''k''))"
  have g: "get_result ?env world0 (JStr (search_url ''Toyota'' (name corolla) SERPAPI_KEY)) False
             = Inr ?r"
    by (simp add: scenario_def)
  have s: "status_code ?r = 200"
    by (simp add: plain_response_def pieces_response_def)
  have j: "json_result ?r = Inr (JObj ?d)"
    by (simp add: plain_response_def pieces_response_def results_json_def)
  have i: "map_of ?d ''images_results'' = Some (JArr [])"
    by simp
  have n: "name corolla = ''Corolla''"
    by (simp add: corolla_def)
  show ?thesis
    using process_model_empty_results [OF g s j i] g s j i
    by (simp add: world0_def n)
qed

text \<open>
  C10. The test is on the truth value of what \<^verbatim>\<open>fetch_image_url\<close> returned. When the first
  result's \<^verbatim>\<open>thumbnail\<close> is the empty string, that string is returned, it is falsy, and
  \<^verbatim>\<open>download_image\<close> is not called: the search stays the only request of the entry.
\<close>

theorem process_model_empty_thumbnail:
  assumes "get_result env w (JStr (search_url b (name m) SERPAPI_KEY)) False = Inr resp"
    and "status_code resp = 200"
    and "json_result resp = Inr (JObj d)"
    and "map_of d ''images_results'' = Some (JArr (JObj f # rest))"
    and "map_of f ''thumbnail'' = Some (JStr [])"
  shows "fst (fetch_image_url env b (name m) SERPAPI_KEY w) = Inr (JStr [])
         \<and> process_model env b m w =
             (Inr (), w\<lparr>reqs := reqs w @ [(JStr (search_url b (name m) SERPAPI_KEY), False)]\<rparr>)"
  using fetch_first_thumbnail [OF assms(1-4)] assms(5)
  by (simp add: process_model_def io_bind_def io_return_def)

theorem process_model_empty_thumbnail_witness:
  "get_result (scenario (Inr (plain_response 200 (results_json [JObj [(''thumbnail'', JStr [])]]) []))
        (Inl (KeyError ''k'')))
      world0 (JStr (search_url ''Toyota'' (name corolla) SERPAPI_KEY)) False
     = Inr (plain_response 200 (results_json [JObj [(''thumbnail'', JStr [])]]) [])
   \<and> status_code (plain_response 200 (results_json [JObj [(''thumbnail'', JStr [])]]) []) = 200
   \<and> json_result (plain_response 200 (results_json [JObj [(''thumbnail'', JStr [])]]) [])
       = Inr (JObj [(''images_results'', JArr [JObj [(''thumbnail'', JStr [])]])])
   \<and> map_of [(''images_results'', JArr [JObj [(''thumbnail'', JStr [])]])] ''images_results''
       = Some (JArr (JObj [(''thumbnail'', JStr [])] # []))
   \<and> map_of [(''thumbnail'', JStr [])] ''thumbnail'' = Some (JStr [])
   \<and> process_model (scenario (Inr (plain_response 200
          (results_json [JObj [(''thumbnail'', JStr [])]]) [])) (Inl (KeyError ''k'')))
        ''Toyota'' corolla world0
     = (Inr (), \<lparr>files = Map.empty, dirs = {}, out = [],
                 reqs = [(JStr (search_url ''Toyota'' ''Corolla'' SERPAPI_KEY), False)],
                 writes = []\<rparr>)"
proof -
  let ?f = "[(''thumbnail'', JStr [])]"
  let ?d = "[(''images_results'', JArr [JObj ?f])]"
  let ?r = "plain_response 200 (results_json [JObj ?f]) []"
  let ?env = "scenario (Inr ?r) (Inl (KeyError ''k''))"
  have g: "get_result ?env world0 (JStr (search_url ''Toyota'' (name corolla) SERPAPI_KEY)) False
             = Inr ?r"
    by (simp add: scenario_def)
  have s: "status_code ?r = 200"
    by (simp add: plain_response_def pieces_response_def)
  have j: "json_result ?r = Inr (JObj ?d)"
    by (simp add: plain_response_def pieces_response_def results_json_def)
  have i: "map_of ?d ''images_results'' = Some (JArr (JObj ?f # []))"
    by simp
  have t: "map_of ?f ''thumbnail'' = Some (JStr [])"
    by simp
  have n: "name corolla = ''Corolla''"
    by (simp add: corolla_def)
  show ?thesis
    using process_model_empty_thumbnail [OF g s j i t] g s j i t
    by (simp add: world0_def n)
qed

subsection \<open>Saving a response to a file\<close>

lemma write_loop_frame:
  "out (snd (for_each (file_write env path) cs w)) = out w
   \<and> reqs (snd (for_each (file_write env path) cs w)) = reqs w"
proof (induction cs arbitrary: w)
  case Nil
  then show ?case by (simp add: io_return_def)
next
  case (Cons c cs)
  show ?case
  proof (cases "write_error env w path c")
    case None
    then show ?thesis
      using Cons.IH by (simp add: io_bind_def file_write_def Let_def)
  next
    case (Some el)
    then show ?thesis
      by (cases el) (simp add: io_bind_def file_write_def Let_def)
  qed
qed

lemma write_loop_done:
  assumes "for_each (file_write env path) cs w = (Inr (), w')"
    and "files w path = Some old"
  shows "files w' path = Some (old @ concat cs)
         \<and> writes w' = writes w @ map (Pair path) cs"
  using assms
proof (induction cs arbitrary: w old)
  case Nil
  then show ?case by (simp add: io_return_def)
next
  case (Cons c cs)
  show ?case
  proof (cases "write_error env w path c")
    case (Some el)
    with Cons.prems show ?thesis
      by (cases el) (simp add: io_bind_def file_write_def Let_def)
  next
    case None
    let ?w1 = "w\<lparr>writes := writes w @ [(path, c)], files := (files w)(path \<mapsto> old @ c)\<rparr>"
    have step: "file_write env path c w = (Inr (), ?w1)"
      using None Cons.prems(2) by (simp add: file_write_def Let_def)
    with Cons.prems(1) have "for_each (file_write env path) cs ?w1 = (Inr (), w')"
      by (simp add: io_bind_def)
    from Cons.IH [OF this, of "old @ c"] show ?thesis
      by simp
  qed
qed

lemma write_loop_raised:
  assumes "for_each (file_write env path) cs w = (Inl e, w')"
  shows "\<exists>w0 c left. write_error env w0 path c = Some (e, left)"
  using assms
proof (induction cs arbitrary: w)
  case Nil
  then show ?case by (simp add: io_return_def)
next
  case (Cons c cs)
  show ?case
  proof (cases "write_error env w path c")
    case (Some el)
    with Cons.prems have "write_error env w path c = Some (e, snd el)"
      by (cases el) (simp add: io_bind_def file_write_def Let_def)
    then show ?thesis
      by blast
  next
    case None
    let ?w1 = "w\<lparr>writes := writes w @ [(path, c)],
                 files := (files w)(path \<mapsto>
                   (case files w path of None \<Rightarrow> c | Some old \<Rightarrow> old @ c))\<rparr>"
    have step: "file_write env path c w = (Inr (), ?w1)"
      using None by (simp add: file_write_def Let_def)
    with Cons.prems have "for_each (file_write env path) cs ?w1 = (Inl e, w')"
      by (simp add: io_bind_def)
    from Cons.IH [OF this] show ?thesis .
  qed
qed

text \<open>Writing chunks to a file that is open, on a filesystem that takes every write.\<close>

lemma write_chunks:
  assumes "\<forall>w' c. write_error env w' path c = None"
    and "files w path = Some old"
  shows "for_each (file_write env path) cs w =
           (Inr (), w\<lparr>writes := writes w @ map (Pair path) cs,
                       files := (files w)(path \<mapsto> old @ concat cs)\<rparr>)"
  using assms(2)
proof (induction cs arbitrary: w old)
  case Nil
  then show ?case
    by (simp add: io_return_def fun_upd_idem)
next
  case (Cons c cs)
  let ?w1 = "w\<lparr>writes := writes w @ [(path, c)], files := (files w)(path \<mapsto> old @ c)\<rparr>"
  have step: "file_write env path c w = (Inr (), ?w1)"
    using assms(1) Cons.prems by (simp add: file_write_def Let_def)
  have "files ?w1 path = Some (old @ c)"
    by simp
  from Cons.IH [OF this]
  have rest: "for_each (file_write env path) cs ?w1 =
          (Inr (), w\<lparr>writes := writes w @ map (Pair path) (c # cs),
                      files := (files w)(path \<mapsto> old @ concat (c # cs))\<rparr>)"
    by (simp add: fun_upd_def cong: if_cong)
  have "for_each (file_write env path) (c # cs) w = for_each (file_write env path) cs ?w1"
    using step by (simp add: io_bind_def)
  with rest show ?case
    by (simp only:)
qed

text \<open>The \<^verbatim>\<open>with\<close> block of \<^verbatim>\<open>download_image\<close>: it prints nothing and requests
  nothing; when it ends normally the file holds the pieces put together, one write per
  piece; when it ends by an exception, that exception came from the body stream or the
  filesystem.\<close>

lemma save_outcome:
  assumes "with_open_wb env path
             (io_bind (for_each (file_write env path) (iter_content 1024 resp)) (\<lambda>_.
              case raw_error resp of Some e \<Rightarrow> io_raise e | None \<Rightarrow> io_return ())) w
           = (r, w')"
  shows "out w' = out w \<and> reqs w' = reqs w
         \<and> (case r of
               Inr u \<Rightarrow> files w' path = Some (received_body resp)
                         \<and> writes w' = writes w @ map (Pair path) (iter_content 1024 resp)
             | Inl e \<Rightarrow> raised_while_saving env resp path e)"
proof (cases "open_error env w path")
  case (Some e)
  with assms show ?thesis
    by (auto simp add: with_open_wb_def open_wb_def raised_while_saving_def)
next
  case None
  let ?w2 = "w\<lparr>files := (files w)(path \<mapsto> [])\<rparr>"
  let ?cs = "iter_content 1024 resp"
  obtain rl w3 where l: "for_each (file_write env path) ?cs ?w2 = (rl, w3)"
    by (cases "for_each (file_write env path) ?cs ?w2")
  have fr: "out w3 = out w" "reqs w3 = reqs w"
    using write_loop_frame [of env path ?cs ?w2] l by simp_all
  let ?rb = "case rl of Inl e \<Rightarrow> Inl e
             | Inr u \<Rightarrow> (case raw_error resp of Some e \<Rightarrow> Inl e | None \<Rightarrow> Inr ())"
  have body: "io_bind (for_each (file_write env path) ?cs) (\<lambda>_.
              case raw_error resp of Some e \<Rightarrow> io_raise e | None \<Rightarrow> io_return ()) ?w2
           = (?rb, w3)"
    using l by (simp add: io_bind_def io_raise_def io_return_def split: sum.splits option.splits)
  have rb: "raised_while_saving env resp path e" if "?rb = Inl e" for e
  proof (cases rl)
    case (Inl e')
    with that have "e' = e" by simp
    with Inl l write_loop_raised [of env path ?cs ?w2 e w3] show ?thesis
      by (auto simp add: raised_while_saving_def)
  next
    case (Inr u)
    with that show ?thesis
      by (auto simp add: raised_while_saving_def split: option.splits)
  qed
  show ?thesis
  proof (cases "close_error env w3 path")
    case (Some el)
    obtain e left where el: "el = (e, left)"
      by (cases el)
    with Some None body assms have "r = Inl e" "w' = w3\<lparr>files := (files w3)(path \<mapsto> left)\<rparr>"
      by (simp_all add: with_open_wb_def open_wb_def file_close_def)
    moreover have "raised_while_saving env resp path e"
      using Some el by (auto simp add: raised_while_saving_def)
    ultimately show ?thesis
      using fr by simp
  next
    case none: None
    with None body assms have res: "r = ?rb" "w' = w3"
      by (simp_all add: with_open_wb_def open_wb_def file_close_def)
    show ?thesis
    proof (cases r)
      case (Inl e)
      with res(1) have "?rb = Inl e"
        by simp
      from rb [OF this] fr res(2) Inl show ?thesis
        by simp
    next
      case (Inr u)
      with res have "rl = Inr ()"
        by (cases rl) (simp_all split: option.splits)
      with l have fin: "for_each (file_write env path) ?cs ?w2 = (Inr (), w3)"
        by simp
      have "files ?w2 path = Some []"
        by simp
      from write_loop_done [OF fin this]
      have f: "files w3 path = Some (received_body resp)"
        and wr: "writes w3 = writes w @ map (Pair path) ?cs"
        by (simp_all add: received_body_def)
      with Inr res fr show ?thesis
        by simp
    qed
  qed
qed

lemma download_200:
  assumes "get_result env w url True = Inr resp"
    and "status_code resp = 200"
    and "raw_error resp = None"
    and "\<forall>w'. open_error env w' path = None"
    and "\<forall>w' c. write_error env w' path c = None"
    and "\<forall>w'. close_error env w' path = None"
    and "\<forall>w'. print_error env w' (''Downloaded: '' @ path) = None"
  shows "download_image env url path w =
           (Inr (), w\<lparr>reqs := reqs w @ [(url, True)],
                       files := (files w)(path \<mapsto> received_body resp),
                       writes := writes w @ map (Pair path) (iter_content 1024 resp),
                       out := out w @ [''Downloaded: '' @ path]\<rparr>)"
proof -
  let ?w1 = "w\<lparr>reqs := reqs w @ [(url, True)]\<rparr>"
  let ?w2 = "?w1\<lparr>files := (files w)(path \<mapsto> [])\<rparr>"
  have o: "open_wb env path ?w1 = (Inr (), ?w2)"
    using assms(4) by (simp add: open_wb_def)
  have "files ?w2 path = Some []"
    by simp
  from write_chunks [OF assms(5) this, of "iter_content 1024 resp"]
  have wr: "for_each (file_write env path) (iter_content 1024 resp) ?w2 =
              (Inr (), ?w2\<lparr>writes := writes w @ map (Pair path) (iter_content 1024 resp),
                            files := (files w)(path \<mapsto> received_body resp)\<rparr>)"
    by (simp add: received_body_def)
  show ?thesis
    using assms(1-3,6,7) o wr
    by (simp add: download_image_def download_image_try_def with_open_wb_def file_close_def
        io_defs)
qed

text \<open>
  C6, as the code has it. When the download GET is answered with status 200, and neither
  the body stream, \<^verbatim>\<open>open\<close>, \<^verbatim>\<open>file.write\<close>, the close of the file nor the \<^verbatim>\<open>print\<close>
  of the success line raises, \<^verbatim>\<open>download_image\<close> creates or truncates the destination,
  writes to it the pieces that \<^verbatim>\<open>response.iter_content(1024)\<close> yields, one
  \<^verbatim>\<open>file.write\<close> per piece and in their order, and prints \<^verbatim>\<open>Downloaded: <path>\<close>: the
  file then holds exactly the body received. The pieces are what the transport delivers;
  nothing makes them 1024 bytes long.
\<close>

theorem download_image_200:
  assumes "get_result env w url True = Inr resp"
    and "status_code resp = 200"
    and "raw_error resp = None"
    and "\<forall>w'. open_error env w' path = None"
    and "\<forall>w' c. write_error env w' path c = None"
    and "\<forall>w'. close_error env w' path = None"
    and "\<forall>w'. print_error env w' (''Downloaded: '' @ path) = None"
  shows "download_image env url path w =
           (Inr (), w\<lparr>reqs := reqs w @ [(url, True)],
                       files := (files w)(path \<mapsto> concat (delivered resp 1024)),
                       writes := writes w @ map (Pair path) (delivered resp 1024),
                       out := out w @ [''Downloaded: '' @ path]\<rparr>)
         \<and> files (snd (download_image env url path w)) path
             = Some (concat (delivered resp 1024))"
  using download_200 [OF assms]
  by (simp add: received_body_def iter_content_def)

theorem download_image_200_witness:
  "get_result (scenario (Inl (KeyError ''k'')) (Inr (pieces_response 200 not_json [''JPEG'', ''DATA''])))
      (world0\<lparr>files := [''out/toyota_corolla.jpg'' \<mapsto> ''OLD'']\<rparr>) (JStr ''http://x/img.jpg'') True
     = Inr (pieces_response 200 not_json [''JPEG'', ''DATA''])
   \<and> status_code (pieces_response 200 not_json [''JPEG'', ''DATA'']) = 200
   \<and> raw_error (pieces_response 200 not_json [''JPEG'', ''DATA'']) = None
   \<and> download_image (scenario (Inl (KeyError ''k''))
          (Inr (pieces_response 200 not_json [''JPEG'', ''DATA''])))
        (JStr ''http://x/img.jpg'') ''out/toyota_corolla.jpg''
        (world0\<lparr>files := [''out/toyota_corolla.jpg'' \<mapsto> ''OLD'']\<rparr>)
     = (Inr (), \<lparr>files = [''out/toyota_corolla.jpg'' \<mapsto> ''JPEGDATA''], dirs = {},
                 out = [''Downloaded: out/toyota_corolla.jpg''],
                 reqs = [(JStr ''http://x/img.jpg'', True)],
                 writes = [(''out/toyota_corolla.jpg'', ''JPEG''),
                           (''out/toyota_corolla.jpg'', ''DATA'')]\<rparr>)"
proof -
  let ?r = "pieces_response 200 not_json [''JPEG'', ''DATA'']"
  let ?env = "scenario (Inl (KeyError ''k'')) (Inr ?r)"
  let ?w = "world0\<lparr>files := [''out/toyota_corolla.jpg'' \<mapsto> ''OLD'']\<rparr>"
  have g: "get_result ?env ?w (JStr ''http://x/img.jpg'') True = Inr ?r"
    by (simp add: scenario_def)
  have s: "status_code ?r = 200"
    by (simp add: pieces_response_def)
  have e: "raw_error ?r = None"
    by (simp add: pieces_response_def)
  have b: "delivered ?r 1024 = [''JPEG'', ''DATA'']"
    by (simp add: pieces_response_def)
  have op: "\<forall>w'. open_error ?env w' ''out/toyota_corolla.jpg'' = None"
    by (simp add: scenario_def)
  have wr: "\<forall>w' c. write_error ?env w' ''out/toyota_corolla.jpg'' c = None"
    by (simp add: scenario_def)
  have cl: "\<forall>w'. close_error ?env w' ''out/toyota_corolla.jpg'' = None"
    by (simp add: scenario_def)
  have pr: "\<forall>w'. print_error ?env w' (''Downloaded: '' @ ''out/toyota_corolla.jpg'') = None"
    by simp
  show ?thesis
    using download_image_200 [OF g s e op wr cl pr] g s e
    by (simp add: b world0_def)
qed

text \<open>
  The claim C6 as the specification words it fails twice. A body of eight bytes that the
  transport delivers in two pieces is written in those two pieces, where fixed-size chunks
  of 1024 bytes would be one write of eight bytes. And an answer with status 200 whose
  file cannot be closed, the disk being full, ends without the file holding the body and
  with an error line in place of the success line.
\<close>

theorem download_image_200_not_as_claimed:
  "status_code (pieces_response 200 not_json [''JPEG'', ''DATA'']) = 200
   \<and> writes (snd (download_image (scenario (Inl (KeyError ''k''))
          (Inr (pieces_response 200 not_json [''JPEG'', ''DATA''])))
        (JStr ''http://x/img.jpg'') ''out/toyota_corolla.jpg'' world0))
       = [(''out/toyota_corolla.jpg'', ''JPEG''), (''out/toyota_corolla.jpg'', ''DATA'')]
   \<and> map (Pair ''out/toyota_corolla.jpg'') (fixed_size_chunks 1024 ''JPEGDATA'')
       = [(''out/toyota_corolla.jpg'', ''JPEGDATA'')]
   \<and> download_image ((scenario (Inl (KeyError ''k''))
          (Inr (pieces_response 200 not_json [''JPEG'', ''DATA''])))\<lparr>close_error := disk_full\<rparr>)
        (JStr ''http://x/img.jpg'') ''out/toyota_corolla.jpg'' world0
       = (Inr (), \<lparr>files = [''out/toyota_corolla.jpg'' \<mapsto> []], dirs = {},
                   out = [''Error downloading http://x/img.jpg: [Errno 28] No space left on device''],
                   reqs = [(JStr ''http://x/img.jpg'', True)],
                   writes = [(''out/toyota_corolla.jpg'', ''JPEG''),
                             (''out/toyota_corolla.jpg'', ''DATA'')]\<rparr>)"
  by (simp add: download_image_def download_image_try_def with_open_wb_def open_wb_def
      file_write_def file_close_def iter_content_def io_defs scenario_def pieces_response_def
      disk_full_def py_str_def world0_def Let_def fixed_size_chunks.simps)

subsection \<open>No exception leaves an entry; the loop reaches every entry\<close>

lemma fetch_image_url_catches:
  assumes "error_lines_printable env"
  shows "fetch_image_url env b m k w =
     (case fetch_image_url_try env b m k w of
        (Inl e, w1) \<Rightarrow>
          (Inr JNull, w1\<lparr>out := out w1 @ [''Error fetching image URL for '' @ b @ '' '' @ m
                                           @ '': '' @ exn_str e]\<rparr>)
      | (Inr r, w1) \<Rightarrow> (Inr (case r of Some v \<Rightarrow> v | None \<Rightarrow> JNull), w1))"
  using assms
  by (simp add: fetch_image_url_def io_defs error_lines_printable_def
      split: prod.splits sum.splits)

lemma download_image_catches:
  assumes "error_lines_printable env"
  shows "download_image env url path w =
     (case download_image_try env url path w of
        (Inl e, w1) \<Rightarrow>
          (Inr (), w1\<lparr>out := out w1 @ [''Error downloading '' @ py_str env url
                                        @ '': '' @ exn_str e]\<rparr>)
      | (Inr u, w1) \<Rightarrow> (Inr (), w1))"
  using assms
  by (simp add: download_image_def io_defs error_lines_printable_def
      split: prod.splits sum.splits)

lemma fetch_image_url_returns:
  "error_lines_printable env \<Longrightarrow> \<exists>v. fst (fetch_image_url env b m k w) = Inr v"
  by (simp add: fetch_image_url_catches split: prod.splits sum.splits)

lemma download_image_returns:
  "error_lines_printable env \<Longrightarrow> fst (download_image env url path w) = Inr ()"
  by (simp add: download_image_catches split: prod.splits sum.splits)

lemma download_image_reqs:
  "reqs (snd (download_image env url path w)) = reqs w @ [(url, True)]"
proof (cases "get_result env w url True")
  case (Inl e)
  then show ?thesis
    by (simp add: download_image_def download_image_try_def io_defs split: option.splits)
next
  case (Inr resp)
  show ?thesis
  proof (cases "status_code resp = 200")
    case False
    with Inr show ?thesis
      by (simp add: download_image_def download_image_try_def io_defs split: option.splits)
  next
    case True
    let ?w1 = "w\<lparr>reqs := reqs w @ [(url, True)]\<rparr>"
    let ?save = "with_open_wb env path
             (io_bind (for_each (file_write env path) (iter_content 1024 resp)) (\<lambda>_.
              case raw_error resp of Some e \<Rightarrow> io_raise e | None \<Rightarrow> io_return ()))"
    obtain r w4 where sv: "?save ?w1 = (r, w4)"
      by (cases "?save ?w1")
    from save_outcome [OF sv] have "reqs w4 = reqs w @ [(url, True)]"
      by simp
    with Inr True sv show ?thesis
      by (simp add: download_image_def download_image_try_def io_defs
          split: option.splits sum.splits)
  qed
qed

lemma process_model_returns:
  assumes "error_lines_printable env"
  shows "fst (process_model env b m w) = Inr ()"
proof -
  obtain v w1 where f: "fetch_image_url env b (name m) SERPAPI_KEY w = (Inr v, w1)"
    using fetch_image_url_returns [OF assms, of b "name m" SERPAPI_KEY w]
    by (cases "fetch_image_url env b (name m) SERPAPI_KEY w") auto
  then show ?thesis
    by (simp add: process_model_def io_bind_def io_return_def download_image_returns [OF assms])
qed

lemma process_model_searches:
  assumes "error_lines_printable env"
  shows "searches (reqs (snd (process_model env b m w)))
           = searches (reqs w) @ [search_of (b, m)]"
proof -
  obtain v w1 where f: "fetch_image_url env b (name m) SERPAPI_KEY w = (Inr v, w1)"
    using fetch_image_url_returns [OF assms, of b "name m" SERPAPI_KEY w]
    by (cases "fetch_image_url env b (name m) SERPAPI_KEY w") auto
  have "reqs w1 = reqs w @ [search_of (b, m)]"
    using fetch_reqs [of env b "name m" SERPAPI_KEY w] f by (simp add: search_of_def)
  with f show ?thesis
    by (simp add: process_model_def io_bind_def io_return_def download_image_reqs
        searches_def search_of_def)
qed

lemma models_loop:
  assumes "error_lines_printable env"
  shows "fst (for_each (process_model env b) ms w) = Inr ()
   \<and> searches (reqs (snd (for_each (process_model env b) ms w)))
       = searches (reqs w) @ map (\<lambda>m. search_of (b, m)) ms"
proof (induction ms arbitrary: w)
  case Nil
  then show ?case by (simp add: io_return_def)
next
  case (Cons m ms)
  obtain w1 where p: "process_model env b m w = (Inr (), w1)"
    using process_model_returns [OF assms, of b m w] by (cases "process_model env b m w") auto
  have "searches (reqs w1) = searches (reqs w) @ [search_of (b, m)]"
    using process_model_searches [OF assms, of b m w] p by simp
  with Cons.IH [of w1] p show ?case
    by (simp add: io_bind_def)
qed

lemma brands_loop:
  assumes "error_lines_printable env"
  shows "fst (main_loop env db w) = Inr ()
   \<and> searches (reqs (snd (main_loop env db w)))
       = searches (reqs w) @ map search_of (catalog_entries db)"
  unfolding main_loop_def
proof (induction db arbitrary: w)
  case Nil
  then show ?case by (simp add: io_return_def catalog_entries_def)
next
  case (Cons b db)
  let ?inner = "for_each (process_model env (brand b)) (models b)"
  obtain w1 where p: "?inner w = (Inr (), w1)"
    using models_loop [OF assms, of "brand b" "models b" w] by (cases "?inner w") auto
  have "searches (reqs w1) = searches (reqs w) @ map (\<lambda>m. search_of (brand b, m)) (models b)"
    using models_loop [OF assms, of "brand b" "models b" w] p by simp
  with Cons.IH [of w1] p show ?case
    by (simp add: io_bind_def catalog_entries_def)
qed

text \<open>
  C2, as the code has it. Provided standard output takes the lines that the two
  \<^verbatim>\<open>except\<close> clauses print, no per-item failure ends the batch. Whatever the network and
  the filesystem do, and whether or not the other lines can be printed,
  \<^verbatim>\<open>fetch_image_url\<close> and \<^verbatim>\<open>download_image\<close> return normally: an exception raised in
  the \<^verbatim>\<open>try\<close> block of either is caught, printed in an \<^verbatim>\<open>Error ...\<close> line and turned into
  \<^verbatim>\<open>None\<close> (so the entry is skipped) or into a plain return. The loop therefore ends
  normally, and the searches it issued are those of all the entries of the catalog, in
  catalog order, the last one included.
\<close>

theorem main_loop_reaches_every_entry:
  assumes "error_lines_printable env"
  shows "fst (main_loop env db w) = Inr ()
   \<and> searches (reqs (snd (main_loop env db w)))
       = searches (reqs w) @ map search_of (catalog_entries db)
   \<and> fetch_image_url env b m k w =
       (case fetch_image_url_try env b m k w of
          (Inl e, w1) \<Rightarrow>
            (Inr JNull, w1\<lparr>out := out w1 @ [''Error fetching image URL for '' @ b @ '' '' @ m
                                             @ '': '' @ exn_str e]\<rparr>)
        | (Inr r, w1) \<Rightarrow> (Inr (case r of Some v \<Rightarrow> v | None \<Rightarrow> JNull), w1))
   \<and> download_image env url path w =
       (case download_image_try env url path w of
          (Inl e, w1) \<Rightarrow>
            (Inr (), w1\<lparr>out := out w1 @ [''Error downloading '' @ py_str env url
                                          @ '': '' @ exn_str e]\<rparr>)
        | (Inr u, w1) \<Rightarrow> (Inr (), w1))"
  using brands_loop [OF assms, of db w] fetch_image_url_catches [OF assms, of b m k w]
    download_image_catches [OF assms, of url path w]
  by (simp only: simp_thms)

theorem main_loop_reaches_every_entry_witness:
  "error_lines_printable (scenario (Inr (plain_response 500 not_json ''Internal Server Error'')) (Inl (KeyError ''k'')))
   \<and> fst (main_loop (scenario (Inr (plain_response 500 not_json ''Internal Server Error'')) (Inl (KeyError ''k'')))
        [citroen] world0) = Inr ()
   \<and> searches (reqs (snd (main_loop
        (scenario (Inr (plain_response 500 not_json ''Internal Server Error'')) (Inl (KeyError ''k'')))
        [citroen] world0)))
       = [(JStr (search_url (''Citro'' @ [CHR 0xEB] @ ''n'') ''C3'' SERPAPI_KEY), False),
          (JStr (search_url (''Citro'' @ [CHR 0xEB] @ ''n'') ''C4'' SERPAPI_KEY), False)]"
proof -
  let ?env = "scenario (Inr (plain_response 500 not_json ''Internal Server Error'')) (Inl (KeyError ''k''))"
  have h: "error_lines_printable ?env"
    by (simp add: error_lines_printable_def)
  have c: "map search_of (catalog_entries [citroen])
       = [(JStr (search_url (''Citro'' @ [CHR 0xEB] @ ''n'') ''C3'' SERPAPI_KEY), False),
          (JStr (search_url (''Citro'' @ [CHR 0xEB] @ ''n'') ''C4'' SERPAPI_KEY), False)]"
    by (simp add: catalog_entries_def citroen_def search_of_def)
  have s: "searches (reqs world0) = []"
    by (simp add: searches_def world0_def)
  from main_loop_reaches_every_entry [OF h, of "[citroen]" world0] h show ?thesis
    by (simp only: c s append_Nil simp_thms)
qed

text \<open>
  The claim C2 as the specification words it fails on a standard output that encodes
  ASCII only. The search for the first entry of brand Citro\<euml>n is answered
  with status 500; the \<^verbatim>\<open>No image found\<close> line cannot be encoded, the exception is caught,
  the \<^verbatim>\<open>except\<close> clause prints the brand again, and that exception leaves
  \<^verbatim>\<open>fetch_image_url\<close> and the loop: nothing is printed and the second entry is never
  searched.
\<close>

theorem main_loop_ended_by_print:
  "main_loop ((scenario (Inr (plain_response 500 not_json ''Internal Server Error'')) (Inl (KeyError ''k'')))
        \<lparr>print_error := ascii_stdout\<rparr>) [citroen] world0
   = (Inl (OtherException ''UnicodeEncodeError''
             ''ascii codec cannot encode character: ordinal not in range(128)''),
      \<lparr>files = Map.empty, dirs = {}, out = [],
       reqs = [(JStr (search_url (''Citro'' @ [CHR 0xEB] @ ''n'') ''C3'' SERPAPI_KEY), False)],
       writes = []\<rparr>)"
proof -
  let ?r = "plain_response 500 not_json ''Internal Server Error''"
  let ?env = "(scenario (Inr ?r) (Inl (KeyError ''k'')))\<lparr>print_error := ascii_stdout\<rparr>"
  let ?b = "''Citro'' @ [CHR 0xEB] @ ''n''"
  let ?e = "OtherException ''UnicodeEncodeError''
             ''ascii codec cannot encode character: ordinal not in range(128)''"
  have p1: "ascii_stdout w' (''No image found for '' @ ?b @ '' '' @ ''C3'') = Some ?e" for w'
    by (simp add: ascii_stdout_def)
  have p2: "ascii_stdout w' (''Error fetching image URL for '' @ ?b @ '' '' @ ''C3''
              @ '': '' @ exn_str ?e) = Some ?e" for w'
    by (simp add: ascii_stdout_def)
  have g: "get_result (scenario (Inr ?r) d) w' url False = Inr ?r" for w' url d
    by (simp add: scenario_def)
  have s: "status_code ?r = 500"
    by (simp add: plain_response_def pieces_response_def)
  have f: "fetch_image_url ?env ?b ''C3'' SERPAPI_KEY world0
             = (Inl ?e, world0\<lparr>reqs := [(JStr (search_url ?b ''C3'' SERPAPI_KEY), False)]\<rparr>)"
    using p1 p2
    by (simp add: fetch_image_url_def fetch_image_url_try_def Let_def io_defs g s
        search_url_def world0_def)
  then have "process_model ?env ?b (hd (models citroen)) world0
             = (Inl ?e, world0\<lparr>reqs := [(JStr (search_url ?b ''C3'' SERPAPI_KEY), False)]\<rparr>)"
    by (simp add: process_model_def io_bind_def citroen_def)
  then show ?thesis
    by (simp add: main_loop_def io_bind_def citroen_def world0_def)
qed

subsection \<open>The release year is never read\<close>

lemma for_each_cong_map:
  assumes "map g xs = map g ys" and "\<And>x y. g x = g y \<Longrightarrow> f x = f' y"
  shows "for_each f xs = for_each f' ys"
  using assms(1)
proof (induction xs arbitrary: ys)
  case Nil
  then show ?case by simp
next
  case (Cons x xs)
  then obtain y ys' where ys: "ys = y # ys'" "g x = g y" "map g xs = map g ys'"
    by (cases ys) auto
  with Cons.IH [of ys'] assms(2) [of x y] show ?case
    by simp
qed

lemma process_model_years:
  assumes "name m = name m'" and "image_path m = image_path m'"
  shows "process_model env b m = process_model env b m'"
  by (simp only: process_model_def assms)

text \<open>
  C9. Two catalogs that differ in release years only are processed alike: from the same
  world and in the same environment the loop ends in the same world, that is with the
  same requests, the same writes, the same files and the same printed lines.
\<close>

theorem main_loop_ignores_releaseYear:
  assumes "erase_years db = erase_years db'"
  shows "main_loop env db w = main_loop env db' w"
proof -
  let ?g = "\<lambda>b. (brand b, map (\<lambda>m. (name m, image_path m)) (models b))"
  let ?f = "\<lambda>b. for_each (process_model env (brand b)) (models b)"
  have inner: "?f x = ?f y" if "?g x = ?g y" for x y :: car_brand
  proof -
    from that have b: "brand x = brand y"
      and m: "map (\<lambda>m. (name m, image_path m)) (models x)
                = map (\<lambda>m. (name m, image_path m)) (models y)"
      by simp_all
    have "for_each (process_model env (brand y)) (models x)
            = for_each (process_model env (brand y)) (models y)"
      by (rule for_each_cong_map [OF m]) (rule process_model_years; simp)
    with b show ?thesis
      by simp
  qed
  have "map ?g db = map ?g db'"
    using assms by (simp add: erase_years_def)
  then have "for_each ?f db = for_each ?f db'"
    by (rule for_each_cong_map) (rule inner)
  then show ?thesis
    by (simp add: main_loop_def)
qed

theorem main_loop_ignores_releaseYear_witness:
  "erase_years [\<lparr>brand = ''Toyota'', models = [corolla]\<rparr>]
     = erase_years [\<lparr>brand = ''Toyota'', models = [corolla\<lparr>releaseYear := 1999\<rparr>]\<rparr>]
   \<and> main_loop (scenario (Inr (plain_response 200
          (results_json [JObj [(''thumbnail'', JStr ''http://x/img.jpg'')]]) []))
          (Inr (plain_response 200 not_json ''JPEGDATA'')))
        [\<lparr>brand = ''Toyota'', models = [corolla]\<rparr>] world0
     = main_loop (scenario (Inr (plain_response 200
          (results_json [JObj [(''thumbnail'', JStr ''http://x/img.jpg'')]]) []))
          (Inr (plain_response 200 not_json ''JPEGDATA'')))
        [\<lparr>brand = ''Toyota'', models = [corolla\<lparr>releaseYear := 1999\<rparr>]\<rparr>] world0"
proof -
  have e: "erase_years [\<lparr>brand = ''Toyota'', models = [corolla]\<rparr>]
     = erase_years [\<lparr>brand = ''Toyota'', models = [corolla\<lparr>releaseYear := 1999\<rparr>]\<rparr>]"
    by (simp add: erase_years_def)
  show ?thesis
    using main_loop_ignores_releaseYear [OF e] e by simp
qed

subsection \<open>The image paths of the static catalog\<close>

text \<open>Lists whose elements carry the key of their group, the keys being distinct, have
  nothing in common.\<close>

lemma distinct_groups:
  assumes "distinct (map fst gs)"
    and "\<forall>g \<in> set gs. distinct (snd g) \<and> (\<forall>x \<in> set (snd g). key x = fst g)"
  shows "distinct (concat (map snd gs))"
  using assms
proof (induction gs)
  case Nil
  then show ?case by simp
next
  case (Cons g gs)
  have "set (snd g) \<inter> set (concat (map snd gs)) = {}"
  proof (rule ccontr)
    assume "set (snd g) \<inter> set (concat (map snd gs)) \<noteq> {}"
    then obtain x g' where x: "x \<in> set (snd g)" "g' \<in> set gs" "x \<in> set (snd g')"
      by auto
    with Cons.prems(2) have "fst g = fst g'"
      by (metis list.set_intros(1) list.set_intros(2))
    with x(2) Cons.prems(1) show False
      by auto
  qed
  with Cons show ?case
    by simp
qed

text \<open>The file names of a brand start with the brand's own word, up to the first
  underscore; the words of the brands differ, and within a brand the names differ.\<close>

lemma brand_words_distinct:
  "distinct (map (\<lambda>b. takeWhile (\<lambda>c. c \<noteq> CHR ''_'') (drop 22 (image_path (hd (models b)))))
     car_database)"
  by code_simp

lemma brand_paths_distinct:
  "list_all (\<lambda>b. distinct (map (drop 22 \<circ> image_path) (models b))
       \<and> list_all (\<lambda>m. takeWhile (\<lambda>c. c \<noteq> CHR ''_'') (drop 22 (image_path m))
             = takeWhile (\<lambda>c. c \<noteq> CHR ''_'') (drop 22 (image_path (hd (models b)))))
           (models b))
     car_database"
  by code_simp

lemma car_database_paths_distinct:
  "distinct (map (\<lambda>e. image_path (snd e)) (catalog_entries car_database))"
proof -
  let ?key = "\<lambda>p. takeWhile (\<lambda>c. c \<noteq> CHR ''_'') (drop 22 p)"
  let ?gs = "map (\<lambda>b. (?key (image_path (hd (models b))), map image_path (models b)))
               car_database"
  have keys: "distinct (map fst ?gs)"
    using brand_words_distinct by (simp add: comp_def)
  have groups: "\<forall>g \<in> set ?gs. distinct (snd g) \<and> (\<forall>x \<in> set (snd g). ?key x = fst g)"
  proof
    fix g assume "g \<in> set ?gs"
    then obtain b where b: "b \<in> set car_database"
      and g: "g = (?key (image_path (hd (models b))), map image_path (models b))"
      by auto
    from brand_paths_distinct b
    have d: "distinct (map (drop 22 \<circ> image_path) (models b))"
      and k: "\<forall>m \<in> set (models b). ?key (image_path m) = ?key (image_path (hd (models b)))"
      by (auto simp add: list_all_iff)
    from d have "distinct (map (drop 22) (map image_path (models b)))"
      by simp
    then have "distinct (map image_path (models b))"
      using distinct_map [of "drop 22" "map image_path (models b)"] by blast
    with k g show "distinct (snd g) \<and> (\<forall>x \<in> set (snd g). ?key x = fst g)"
      by auto
  qed
  have "map (\<lambda>e. image_path (snd e)) (catalog_entries car_database) = concat (map snd ?gs)"
    by (simp add: catalog_entries_def map_concat comp_def)
  with distinct_groups [of ?gs ?key, OF keys groups] show ?thesis
    by simp
qed

lemma car_database_paths_under_image_dir:
  "list_all (\<lambda>e. under_dir image_dir (image_path (snd e))) (catalog_entries car_database)"
  by code_simp

lemma script_makedirs_first:
  "script env w =
     (case makedirs_error env w image_dir of
        Some e \<Rightarrow> (Inl e, w)
      | None \<Rightarrow> main_loop env car_database (w\<lparr>dirs := dirs w \<union> set (dir_and_parents image_dir)\<rparr>))"
  by (simp add: script_def makedirs_def io_bind_def split: option.splits)

lemma image_dir_created: "image_dir \<in> set (dir_and_parents image_dir)"
  by (simp add: dir_and_parents_def)

text \<open>
  C8. In the static catalog no two entries have the same image path, and every image path
  lies directly in \<^verbatim>\<open>src/assets/car_images\<close>. That directory is what the script creates
  first: either \<^verbatim>\<open>os.makedirs\<close> raises and nothing else happens, or the loop starts in a
  world where the directory exists and no file has been touched yet.
\<close>

theorem car_database_image_paths:
  "distinct (map (\<lambda>e. image_path (snd e)) (catalog_entries car_database))
   \<and> list_all (\<lambda>e. under_dir image_dir (image_path (snd e))) (catalog_entries car_database)
   \<and> image_dir = ''src/assets/car_images''
   \<and> image_dir \<in> set (dir_and_parents image_dir)
   \<and> script env w =
       (case makedirs_error env w image_dir of
          Some e \<Rightarrow> (Inl e, w)
        | None \<Rightarrow>
            main_loop env car_database
              (w\<lparr>dirs := dirs w \<union> set (dir_and_parents image_dir)\<rparr>))"
  using car_database_paths_distinct car_database_paths_under_image_dir
    script_makedirs_first [of env w] image_dir_created
  by (simp only: simp_thms image_dir_def [symmetric])

subsection \<open>The outcome of an entry\<close>

lemma py_get_Inr: "py_get x key dflt = Inr v \<Longrightarrow> \<exists>kvs. x = JObj kvs"
  by (cases x) simp_all

lemma py_index0_obj: "py_index0 x = Inr (JObj f) \<Longrightarrow> \<exists>rest. x = JArr (JObj f # rest)"
proof (cases x)
  case (JArr xs)
  assume "py_index0 x = Inr (JObj f)"
  with JArr show ?thesis by (cases xs) simp_all
next
  case (JStr cs)
  assume "py_index0 x = Inr (JObj f)"
  with JStr show ?thesis by (cases cs) simp_all
qed simp_all

text \<open>The value that the \<^verbatim>\<open>return\<close> inside the \<^verbatim>\<open>try\<close> block returns is the thumbnail of
  the first result.\<close>

lemma search_outcome_url:
  assumes "search_outcome (Inr resp) = Inr (Some t)"
  shows "first_thumbnail resp = Some t"
proof -
  from assms have s: "status_code resp = 200"
    by (simp add: search_outcome_def split: if_splits)
  with assms obtain data where j: "json_result resp = Inr data"
    by (cases "json_result resp") (simp_all add: search_outcome_def)
  with assms s obtain images where i: "py_get data ''images_results'' (JArr []) = Inr images"
    by (cases "py_get data ''images_results'' (JArr [])") (simp_all add: search_outcome_def)
  with assms s j have tr: "truthy images"
    by (simp add: search_outcome_def split: if_splits)
  with assms s j i obtain first where x: "py_index0 images = Inr first"
    by (cases "py_index0 images") (simp_all add: search_outcome_def)
  with assms s j i tr have g: "py_get first ''thumbnail'' JNull = Inr t"
    by (cases "py_get first ''thumbnail'' JNull") (simp_all add: search_outcome_def)
  from py_get_Inr [OF i] obtain d where d: "data = JObj d"
    by blast
  from py_get_Inr [OF g] obtain f where f: "first = JObj f"
    by blast
  from py_index0_obj [of images f] x f obtain rest where r: "images = JArr (JObj f # rest)"
    by blast
  from i d r have "map_of d ''images_results'' = Some (JArr (JObj f # rest))"
    by (simp split: option.splits)
  moreover from g f have "t = (case map_of f ''thumbnail'' of Some v \<Rightarrow> v | None \<Rightarrow> JNull)"
    by simp
  ultimately show ?thesis
    using s j d by (simp add: first_thumbnail_def)
qed

text \<open>On a standard output that takes every line, the search stage is its outcome.\<close>

lemma fetch_by_outcome:
  assumes "\<forall>w0 line. print_error env w0 line = None"
  shows "fetch_image_url env b m k w =
     (case search_outcome (get_result env w (JStr (search_url b m k)) False) of
        Inl e \<Rightarrow>
          (Inr JNull, w\<lparr>reqs := reqs w @ [(JStr (search_url b m k), False)],
                         out := out w @ [''Error fetching image URL for '' @ b @ '' '' @ m
                                           @ '': '' @ exn_str e]\<rparr>)
      | Inr None \<Rightarrow>
          (Inr JNull, w\<lparr>reqs := reqs w @ [(JStr (search_url b m k), False)],
                         out := out w @ [''No image found for '' @ b @ '' '' @ m]\<rparr>)
      | Inr (Some t) \<Rightarrow>
          (Inr t, w\<lparr>reqs := reqs w @ [(JStr (search_url b m k), False)]\<rparr>))"
  using assms
  by (simp add: fetch_image_url_def fetch_image_url_try_def io_defs search_url_def Let_def
      search_outcome_def split: sum.splits)

text \<open>On such a standard output, what a download prints and leaves behind.\<close>

lemma download_outcome:
  assumes "\<forall>w0 line. print_error env w0 line = None"
  shows "case get_result env w url True of
       Inl e \<Rightarrow>
         out (snd (download_image env url path w))
           = out w @ [''Error downloading '' @ py_str env url @ '': '' @ exn_str e]
         \<and> files (snd (download_image env url path w)) = files w
     | Inr resp \<Rightarrow>
         if status_code resp = 200 then
           (out (snd (download_image env url path w)) = out w @ [''Downloaded: '' @ path]
            \<and> files (snd (download_image env url path w)) path = Some (received_body resp))
           \<or> (\<exists>e. raised_while_saving env resp path e
                \<and> out (snd (download_image env url path w))
                    = out w @ [''Error downloading '' @ py_str env url @ '': '' @ exn_str e])
         else
           out (snd (download_image env url path w))
             = out w @ [''Failed to download '' @ py_str env url @ '': ''
                          @ str_int (status_code resp)]
           \<and> files (snd (download_image env url path w)) = files w"
proof (cases "get_result env w url True")
  case (Inl e)
  with assms show ?thesis
    by (simp add: download_image_def download_image_try_def io_defs)
next
  case (Inr resp)
  show ?thesis
  proof (cases "status_code resp = 200")
    case False
    with Inr assms show ?thesis
      by (simp add: download_image_def download_image_try_def io_defs)
  next
    case True
    let ?w1 = "w\<lparr>reqs := reqs w @ [(url, True)]\<rparr>"
    let ?save = "with_open_wb env path
             (io_bind (for_each (file_write env path) (iter_content 1024 resp)) (\<lambda>_.
              case raw_error resp of Some e \<Rightarrow> io_raise e | None \<Rightarrow> io_return ()))"
    obtain r w4 where sv: "?save ?w1 = (r, w4)"
      by (cases "?save ?w1")
    note so = save_outcome [OF sv]
    then have o4: "out w4 = out w"
      by simp
    show ?thesis
    proof (cases r)
      case (Inl e)
      with so have "raised_while_saving env resp path e"
        by simp
      moreover from Inl Inr True sv assms o4
      have "out (snd (download_image env url path w))
              = out w @ [''Error downloading '' @ py_str env url @ '': '' @ exn_str e]"
        by (simp add: download_image_def download_image_try_def io_defs)
      ultimately show ?thesis
        using Inr True by auto
    next
      case r: (Inr u)
      with so have f4: "files w4 path = Some (received_body resp)"
        by simp
      from r Inr True sv assms o4 f4
      have "out (snd (download_image env url path w)) = out w @ [''Downloaded: '' @ path]
            \<and> files (snd (download_image env url path w)) path = Some (received_body resp)"
        by (simp add: download_image_def download_image_try_def io_defs)
      then show ?thesis
        using Inr True by simp
    qed
  qed
qed

text \<open>
  C1, as the code has it. Take an entry whose search did not end in a first result with
  a missing or falsy thumbnail, on a standard output that takes every line. Processing it
  prints exactly one line, and which one follows from the answers of the network:
  \<^item> the search came to nothing: \<^verbatim>\<open>No image found for <brand> <model>\<close>, no file touched;
  \<^item> the search raised \<open>e\<close>: \<^verbatim>\<open>Error fetching image URL for <brand> <model>: <e>\<close>, no
    file touched;
  \<^item> the search returned a URL and the download GET raised \<open>e\<close>:
    \<^verbatim>\<open>Error downloading <url>: <e>\<close> with that URL, no file touched;
  \<^item> the download was answered with a status other than 200:
    \<^verbatim>\<open>Failed to download <url>: <status>\<close> with that URL and that status, no file touched;
  \<^item> the download was answered with 200: either \<^verbatim>\<open>Downloaded: <path>\<close> and the file at
    the entry's path holds the body received, or \<^verbatim>\<open>Error downloading <url>: <e>\<close> for an
    exception \<open>e\<close> of the body stream or of the filesystem.
  The lines of the search name brand and model; the lines of the download name the URL,
  not the entry.
\<close>

theorem process_model_outcome:
  fixes env w b m
  defines "w' \<equiv> snd (process_model env b m w)"
    and "found \<equiv> search_outcome
                   (get_result env w (JStr (search_url b (name m) SERPAPI_KEY)) False)"
    and "w1 \<equiv> w\<lparr>reqs := reqs w @ [(JStr (search_url b (name m) SERPAPI_KEY), False)]\<rparr>"
  assumes "\<not> thumbnail_unusable env w b m"
    and "\<forall>w0 line. print_error env w0 line = None"
  shows "(found = Inr None
          \<and> out w' = out w @ [''No image found for '' @ b @ '' '' @ name m]
          \<and> files w' = files w)
       \<or> (\<exists>e. found = Inl e
             \<and> out w' = out w @ [''Error fetching image URL for '' @ b @ '' '' @ name m
                                   @ '': '' @ exn_str e]
             \<and> files w' = files w)
       \<or> (\<exists>url. found = Inr (Some url) \<and> truthy url
             \<and> (case get_result env w1 url True of
                   Inl e \<Rightarrow>
                     out w' = out w @ [''Error downloading '' @ py_str env url @ '': ''
                                         @ exn_str e]
                     \<and> files w' = files w
                 | Inr resp \<Rightarrow>
                     if status_code resp = 200 then
                       (out w' = out w @ [''Downloaded: '' @ image_path m]
                        \<and> files w' (image_path m) = Some (received_body resp))
                       \<or> (\<exists>e. raised_while_saving env resp (image_path m) e
                            \<and> out w' = out w @ [''Error downloading '' @ py_str env url
                                                  @ '': '' @ exn_str e])
                     else
                       out w' = out w @ [''Failed to download '' @ py_str env url @ '': ''
                                           @ str_int (status_code resp)]
                       \<and> files w' = files w))"
proof -
  let ?answer = "get_result env w (JStr (search_url b (name m) SERPAPI_KEY)) False"
  note fo = fetch_by_outcome [OF assms(5), of b "name m" SERPAPI_KEY w]
  show ?thesis
  proof (cases found)
    case (Inl e)
    with fo have "fetch_image_url env b (name m) SERPAPI_KEY w =
        (Inr JNull, w1\<lparr>out := out w @ [''Error fetching image URL for '' @ b @ '' '' @ name m
                                        @ '': '' @ exn_str e]\<rparr>)"
      by (simp add: found_def w1_def)
    from process_model_unfold [OF this] Inl show ?thesis
      by (simp add: w'_def w1_def)
  next
    case (Inr r)
    show ?thesis
    proof (cases r)
      case None
      with Inr fo have "fetch_image_url env b (name m) SERPAPI_KEY w =
          (Inr JNull, w1\<lparr>out := out w @ [''No image found for '' @ b @ '' '' @ name m]\<rparr>)"
        by (simp add: found_def w1_def)
      from process_model_unfold [OF this] Inr None show ?thesis
        by (simp add: w'_def w1_def)
    next
      case (Some url)
      with Inr have fu: "found = Inr (Some url)"
        by simp
      then obtain resp where a: "?answer = Inr resp"
        by (cases ?answer) (simp_all add: found_def search_outcome_def)
      with fu have "first_thumbnail resp = Some url"
        by (simp add: found_def search_outcome_url)
      with a assms(4) have tr: "truthy url"
        by (simp add: thumbnail_unusable_def)
      from fu fo have "fetch_image_url env b (name m) SERPAPI_KEY w = (Inr url, w1)"
        by (simp add: found_def w1_def)
      from process_model_unfold [OF this] tr
      have p: "process_model env b m w = download_image env url (image_path m) w1"
        by simp
      have w1: "out w1 = out w" "files w1 = files w"
        by (simp_all add: w1_def)
      from download_outcome [OF assms(5), where w = w1 and url = url and path = "image_path m"]
      have "case get_result env w1 url True of
                   Inl e \<Rightarrow>
                     out w' = out w @ [''Error downloading '' @ py_str env url @ '': ''
                                         @ exn_str e]
                     \<and> files w' = files w
                 | Inr resp \<Rightarrow>
                     if status_code resp = 200 then
                       (out w' = out w @ [''Downloaded: '' @ image_path m]
                        \<and> files w' (image_path m) = Some (received_body resp))
                       \<or> (\<exists>e. raised_while_saving env resp (image_path m) e
                            \<and> out w' = out w @ [''Error downloading '' @ py_str env url
                                                  @ '': '' @ exn_str e])
                     else
                       out w' = out w @ [''Failed to download '' @ py_str env url @ '': ''
                                           @ str_int (status_code resp)]
                       \<and> files w' = files w"
        by (simp only: w'_def p w1)
      with fu tr show ?thesis
        by blast
    qed
  qed
qed

lemma toyota_corolla_downloaded:
  "process_model (scenario (Inr (plain_response 200
        (results_json [JObj [(''thumbnail'', JStr ''http://x/img.jpg'')]]) []))
        (Inr (plain_response 200 not_json ''JPEGDATA'')))
      ''Toyota'' corolla world0
   = (Inr (), \<lparr>files = [''out/toyota_corolla.jpg'' \<mapsto> ''JPEGDATA''], dirs = {},
               out = [''Downloaded: out/toyota_corolla.jpg''],
               reqs = [(JStr (search_url ''Toyota'' ''Corolla'' SERPAPI_KEY), False),
                       (JStr ''http://x/img.jpg'', True)],
               writes = [(''out/toyota_corolla.jpg'', ''JPEGDATA'')]\<rparr>)"
proof -
  let ?f = "[(''thumbnail'', JStr ''http://x/img.jpg'')]"
  let ?d = "[(''images_results'', JArr [JObj ?f])]"
  let ?r = "plain_response 200 (results_json [JObj ?f]) []"
  let ?dl = "plain_response 200 not_json ''JPEGDATA''"
  let ?env = "scenario (Inr ?r) (Inr ?dl)"
  let ?w1 = "world0\<lparr>reqs := reqs world0
               @ [(JStr (search_url ''Toyota'' (name corolla) SERPAPI_KEY), False)]\<rparr>"
  have g: "get_result ?env world0 (JStr (search_url ''Toyota'' (name corolla) SERPAPI_KEY)) False
             = Inr ?r"
    by (simp add: scenario_def)
  have s: "status_code ?r = 200"
    by (simp add: plain_response_def pieces_response_def)
  have j: "json_result ?r = Inr (JObj ?d)"
    by (simp add: plain_response_def pieces_response_def results_json_def)
  have i: "map_of ?d ''images_results'' = Some (JArr (JObj ?f # []))"
    by simp
  have f: "fetch_image_url ?env ''Toyota'' (name corolla) SERPAPI_KEY world0
             = (Inr (JStr ''http://x/img.jpg''), ?w1)"
    using fetch_first_thumbnail [OF g s j i] by simp
  have g2: "get_result ?env ?w1 (JStr ''http://x/img.jpg'') True = Inr ?dl"
    by (simp add: scenario_def)
  have s2: "status_code ?dl = 200" and e2: "raw_error ?dl = None"
    and b2: "iter_content 1024 ?dl = [''JPEGDATA'']"
    by (simp_all add: plain_response_def pieces_response_def iter_content_def)
  have op: "\<forall>w'. open_error ?env w' (image_path corolla) = None"
    and wr: "\<forall>w' c. write_error ?env w' (image_path corolla) c = None"
    and cl: "\<forall>w'. close_error ?env w' (image_path corolla) = None"
    by (simp_all add: scenario_def)
  have pr: "\<forall>w'. print_error ?env w' (''Downloaded: '' @ image_path corolla) = None"
    by simp
  from process_model_unfold [OF f] download_200 [OF g2 s2 e2 op wr cl pr] show ?thesis
    by (simp add: b2 received_body_def world0_def corolla_def)
qed

theorem process_model_outcome_witness:
  "\<not> thumbnail_unusable (scenario (Inr (plain_response 200
        (results_json [JObj [(''thumbnail'', JStr ''http://x/img.jpg'')]]) []))
        (Inr (plain_response 200 not_json ''JPEGDATA''))) world0 ''Toyota'' corolla
   \<and> (\<forall>w0 line. print_error (scenario (Inr (plain_response 200
        (results_json [JObj [(''thumbnail'', JStr ''http://x/img.jpg'')]]) []))
        (Inr (plain_response 200 not_json ''JPEGDATA''))) w0 line = None)
   \<and> out (snd (process_model (scenario (Inr (plain_response 200
        (results_json [JObj [(''thumbnail'', JStr ''http://x/img.jpg'')]]) []))
        (Inr (plain_response 200 not_json ''JPEGDATA''))) ''Toyota'' corolla world0))
       = out world0 @ [''Downloaded: '' @ image_path corolla]
   \<and> files (snd (process_model (scenario (Inr (plain_response 200
        (results_json [JObj [(''thumbnail'', JStr ''http://x/img.jpg'')]]) []))
        (Inr (plain_response 200 not_json ''JPEGDATA''))) ''Toyota'' corolla world0))
        (image_path corolla) = Some ''JPEGDATA''"
proof -
  let ?env = "scenario (Inr (plain_response 200
        (results_json [JObj [(''thumbnail'', JStr ''http://x/img.jpg'')]]) []))
        (Inr (plain_response 200 not_json ''JPEGDATA''))"
  have h: "\<not> thumbnail_unusable ?env world0 ''Toyota'' corolla"
    by (simp add: thumbnail_unusable_def scenario_def first_thumbnail_def plain_response_def
        pieces_response_def results_json_def)
  have p: "\<forall>w0 line. print_error ?env w0 line = None"
    by simp
  have ip: "image_path corolla = ''out/toyota_corolla.jpg''"
    by (simp add: corolla_def)
  have ow: "out world0 = []"
    by (simp add: world0_def)
  have t: "out (snd (process_model ?env ''Toyota'' corolla world0))
             = out world0 @ [''Downloaded: '' @ image_path corolla]
           \<and> files (snd (process_model ?env ''Toyota'' corolla world0)) (image_path corolla)
               = Some ''JPEGDATA''"
    by (simp add: toyota_corolla_downloaded ip ow)
  from process_model_outcome [OF h p] h p t show ?thesis
    by (simp only: simp_thms)
qed

text \<open>
  The claim C1 as the specification words it fails where the download fails. Toyota
  Corolla, a search that finds \<^verbatim>\<open>http://x/img.jpg\<close>, a download answered with 404: the
  file is not written, and the one line printed names the URL and the status, neither the
  brand nor the model.
\<close>

theorem process_model_download_failure_line:
  "files (snd (process_model (scenario (Inr (plain_response 200
        (results_json [JObj [(''thumbnail'', JStr ''http://x/img.jpg'')]]) []))
        (Inr (plain_response 404 not_json ''Not Found''))) ''Toyota'' corolla world0))
        (image_path corolla) = None
   \<and> out (snd (process_model (scenario (Inr (plain_response 200
        (results_json [JObj [(''thumbnail'', JStr ''http://x/img.jpg'')]]) []))
        (Inr (plain_response 404 not_json ''Not Found''))) ''Toyota'' corolla world0))
       = [''Failed to download http://x/img.jpg: 404'']
   \<and> \<not> mentions ''Failed to download http://x/img.jpg: 404'' ''Toyota''
   \<and> \<not> mentions ''Failed to download http://x/img.jpg: 404'' ''Corolla''"
proof -
  let ?f = "[(''thumbnail'', JStr ''http://x/img.jpg'')]"
  let ?d = "[(''images_results'', JArr [JObj ?f])]"
  let ?r = "plain_response 200 (results_json [JObj ?f]) []"
  let ?dl = "plain_response 404 not_json ''Not Found''"
  let ?env = "scenario (Inr ?r) (Inr ?dl)"
  let ?w1 = "world0\<lparr>reqs := reqs world0
               @ [(JStr (search_url ''Toyota'' (name corolla) SERPAPI_KEY), False)]\<rparr>"
  have g: "get_result ?env world0 (JStr (search_url ''Toyota'' (name corolla) SERPAPI_KEY)) False
             = Inr ?r"
    by (simp add: scenario_def)
  have s: "status_code ?r = 200"
    by (simp add: plain_response_def pieces_response_def)
  have j: "json_result ?r = Inr (JObj ?d)"
    by (simp add: plain_response_def pieces_response_def results_json_def)
  have i: "map_of ?d ''images_results'' = Some (JArr (JObj ?f # []))"
    by simp
  have f: "fetch_image_url ?env ''Toyota'' (name corolla) SERPAPI_KEY world0
             = (Inr (JStr ''http://x/img.jpg''), ?w1)"
    using fetch_first_thumbnail [OF g s j i] by simp
  have g2: "get_result ?env ?w1 (JStr ''http://x/img.jpg'') True = Inr ?dl"
    by (simp add: scenario_def)
  have s2: "status_code ?dl \<noteq> 200" and c2: "status_code ?dl = 404"
    by (simp_all add: plain_response_def pieces_response_def)
  have "process_model ?env ''Toyota'' corolla world0
          = download_image ?env (JStr ''http://x/img.jpg'') (image_path corolla) ?w1"
    using process_model_unfold [OF f] by simp
  moreover have "download_image ?env (JStr ''http://x/img.jpg'') (image_path corolla) ?w1
          = (Inr (), ?w1\<lparr>reqs := reqs ?w1 @ [(JStr ''http://x/img.jpg'', True)],
                           out := out ?w1 @ [''Failed to download '' @ ''http://x/img.jpg''
                                               @ '': '' @ ''404'']\<rparr>)"
    using g2 s2 c2
    by (simp add: download_image_def download_image_try_def io_defs py_str_def str_int_404)
  ultimately show ?thesis
    by (simp add: world0_def)
qed

text \<open>
  Where the first result has no \<^verbatim>\<open>thumbnail\<close> field, \<^verbatim>\<open>fetch_image_url\<close> returns
  \<^verbatim>\<open>None\<close> from inside the \<^verbatim>\<open>try\<close> block, before the \<^verbatim>\<open>print\<close>: the entry is skipped
  and nothing at all is printed for it.
\<close>

lemma process_model_missing_thumbnail_silent:
  assumes "get_result env w (JStr (search_url b (name m) SERPAPI_KEY)) False = Inr resp"
    and "status_code resp = 200"
    and "json_result resp = Inr (JObj d)"
    and "map_of d ''images_results'' = Some (JArr (JObj f # rest))"
    and "map_of f ''thumbnail'' = None"
  shows "process_model env b m w =
           (Inr (), w\<lparr>reqs := reqs w @ [(JStr (search_url b (name m) SERPAPI_KEY), False)]\<rparr>)"
  using fetch_first_thumbnail [OF assms(1-4)] assms(5)
  by (simp add: process_model_def io_bind_def io_return_def)

end
